theory Spec2Isabelle
  imports Main "HOL-Library.Sublist"
begin

section \<open>Strings\<close>

text \<open>
  A Python \<^verbatim>\<open>str\<close> is modelled by its UTF-8 encoding, a \<^typ>\<open>string\<close> (list of 8-bit
  characters). The encoding is injective and commutes with concatenation, so equality,
  concatenation and substring search on the model agree with the source. The prompt
  modules use seven characters outside ASCII; each is named here by its three bytes.
\<close>

definition rsquo :: string where
  "rsquo = [CHR 0xE2, CHR 0x80, CHR 0x99]"

definition ldquo :: string where
  "ldquo = [CHR 0xE2, CHR 0x80, CHR 0x9C]"

definition rdquo :: string where
  "rdquo = [CHR 0xE2, CHR 0x80, CHR 0x9D]"

definition bullet :: string where
  "bullet = [CHR 0xE2, CHR 0x80, CHR 0xA2]"

definition ndash :: string where
  "ndash = [CHR 0xE2, CHR 0x80, CHR 0x93]"

definition mdash :: string where
  "mdash = [CHR 0xE2, CHR 0x80, CHR 0x94]"

definition nbhyphen :: string where
  "nbhyphen = [CHR 0xE2, CHR 0x80, CHR 0x91]"

text \<open>
  The triple-quoted literals of the source are written line by line: \<open>join_lines ls\<close> is
  Python's \<^verbatim>\<open>"\n".join(ls)\<close> and \<open>split_lines s\<close> is \<^verbatim>\<open>s.split("\n")\<close>.
\<close>

fun join_lines :: "string list \<Rightarrow> string" where
  "join_lines [] = []"
| "join_lines [l] = l"
| "join_lines (l # m # ls) = l @ CHR 0x0A # join_lines (m # ls)"

fun split_lines :: "string \<Rightarrow> string list" where
  "split_lines [] = [[]]"
| "split_lines (c # cs) =
     (if c = CHR 0x0A then [] # split_lines cs
      else (case split_lines cs of [] \<Rightarrow> [[c]] | l # ls \<Rightarrow> (c # l) # ls))"

section \<open>Formatted string literals\<close>

text \<open>
  Each prompt function builds its result with one f-string. An f-string is a sequence of
  literal text and replacement fields \<^verbatim>\<open>{name}\<close>; evaluating a field looks the name up
  in the local scope (a \<^verbatim>\<open>NameError\<close> when it is unbound) and, for a \<^verbatim>\<open>str\<close> value
  and an empty format specification, contributes the value itself.
\<close>

datatype piece = Lit string | Field string

datatype error = NameError string

fun fstring :: "(string \<rightharpoonup> string) \<Rightarrow> piece list \<Rightarrow> error + string" where
  "fstring env [] = Inr []"
| "fstring env (Lit s # ps) =
     (case fstring env ps of Inl e \<Rightarrow> Inl e | Inr r \<Rightarrow> Inr (s @ r))"
| "fstring env (Field n # ps) =
     (case env n of
        None \<Rightarrow> Inl (NameError n)
      | Some v \<Rightarrow> (case fstring env ps of Inl e \<Rightarrow> Inl e | Inr r \<Rightarrow> Inr (v @ r)))"

section \<open>The prompt templates\<close>

text \<open>
  For each of the six f-strings, the lines of literal text before the replacement field
  (\<open>_head\<close>; its last line is the text preceding the field on the field's own line) and
  after it (\<open>_tail\<close>; its first line is the rest of the field's line).
\<close>

definition cosmos_question_head :: "string list" where
  \<open>cosmos_question_head = [
    '''',
    ''You are a Web3 Security Researcher. Your task is to analyze the given codebase with a laser focus on this single question:'',
    '''',
    ''**Security Question (scope for this run):** ''
  ]\<close>

definition cosmos_question_tail :: "string list" where
  \<open>cosmos_question_tail = [
    '''',
    '''',
    ''Your mission:'',
    ''- Use the security question as your starting point. Investigate all relevant code paths, protocol logic, and assumptions tied to that question, and look for one concrete, exploitable vulnerability. Do not debate the premise of the question; accept it and investigate thoroughly.'',
    ''- Explore a wide range of realistic input scenarios and edge cases. Test with large and small values (within valid ranges), atypical decimals or data encodings, sequences of actions or messages, and boundary conditions to see how the system'' @ rsquo @ ''s state changes. When mathematics, cryptography, or accounting are involved, check for rounding errors, overflow/underflow, miscalculations, or invariant violations. Always use inputs that could actually be provided by a real user, contract, or node on-chain or via the network.'',
    ''- Work through complete flows end-to-end: simulate how an unprivileged actor (e.g., a normal user or an external node) would interact with the system (calling functions, sending transactions or network messages), and trace how the internal state (storage variables, balances, consensus state, etc.) evolves. Consider interactions across modules, libraries, initialization routines, consensus or networking components, and configuration settings.'',
    ''- If you find a vulnerability, produce a report in the exact format specified below. If **no** valid vulnerability emerges, clearly state: **'' @ ldquo @ ''#NoVulnerability found for this question.'' @ rdquo @ ''**'',
    ''- Do not invent or repeat findings outside the scope of this question. Stay strictly within the defined scope; do not introduce unrelated issues.'',
    ''- The security question is your starting point. Your job is to investigate the code related to it and identify a concrete, exploitable vulnerability. Do not question the premise; focus logically and deeply on the relevant code.'',
    ''- Try to find **only ONE** valid vulnerability related to this question, ensuring it clearly ties to the question'' @ rsquo @ ''s topic.'',
    ''- Dive deep into the codebase, protocol logic, and underlying assumptions.'',
    '''',
    ''Important rules:'',
    ''- The vulnerability must be actually triggerable under real-world conditions (on-chain or in-network). Pure logic or invariant violations count only if you can explain exactly how an attacker would leverage them to break the system (not just a theoretical issue with no practical impact).'',
    ''- Be 100% certain the issue is exploitable. If in doubt, respond with **'' @ ldquo @ ''#NoVulnerability found for this question.'' @ rdquo @ ''**'',
    ''- Focus on unprivileged attack surfaces first (actions by normal users or unauthenticated nodes). If exploiting the issue requires a privileged role (admin keys, validator majority, etc.), then only consider it if there is a subtle logic flaw that could be abused despite trusted actors (do not assume a malicious admin unless the flaw enables escalation).'',
    ''- Provide a working proof-of-concept using the project'' @ rsquo @ ''s test framework to demonstrate the exploit whenever possible. If the exploit or its effects cannot be reproduced in a test or simulation (using unit tests, integration tests, or the project'' @ rsquo @ ''s own testing tools), then the issue is not valid.'',
    ''- Findings that only improve efficiency, style, or that involve user/administrator error without a security impact are **out of scope**. Also excluded are:'',
    ''  '' @ bullet @ '' Gas or performance optimizations, stylistic/code-quality improvements, or UX enhancements with no security impact.'',
    ''  '' @ bullet @ '' Minor issues in events or view functions that do not affect the protocol'' @ rsquo @ ''s state or user funds.'',
    ''  '' @ bullet @ '' Missing input validation (e.g., zero-address checks) that only prevents user mistakes; assume users and admins use the system as intended.'',
    ''  '' @ bullet @ '' Admin misconfiguration or reckless admin actions (assume admins and privileged operators are trusted and competent).'',
    ''  '' @ bullet @ '' Blacklisting/whitelisting or emergency pause mechanisms, unless an unprivileged attacker can exploit them.'',
    ''  '' @ bullet @ '' Issues that require front-running or timing outside the intended threat model, if they cause no lasting damage (e.g., a race condition that can be easily reset or has negligible impact).'',
    ''  '' @ bullet @ '' Purely theoretical attacks relying on external failures not caused by this code (e.g., 51% consensus attacks, major network partitions, cryptographic breaks external to this protocol, oracle failures beyond the protocol'' @ rsquo @ ''s control).'',
    ''  '' @ bullet @ '' Loss of insignificant amounts ('' @ ldquo @ ''dust'' @ rdquo @ '') or scenarios where users only harm themselves (e.g. sending tokens to wrong address) without broader protocol impact.'',
    ''  '' @ bullet @ '' Issues that depend on non-standard or intentionally malicious external components (e.g., specially crafted ERC-20 tokens with unusual behavior) unless explicitly in scope.'',
    ''  '' @ bullet @ '' Duplicate or previously acknowledged issues (if the issue is known and documented as accepted or fixed, it'' @ rsquo @ ''s not valid to report again).'',
    ''- Search **all relevant places** in the codebase where the questioned logic might reside (e.g., message handlers, consensus algorithm steps, cryptographic functions, state transition logic, configuration and initialization code). Don'' @ rsquo @ ''t limit yourself to one file if the logic might be spread across multiple components.'',
    ''- **Do not go out of scope.** If an issue falls into any of the out-of-scope categories above, do not include it in your report.'',
    ''- Make sure to provide a valid test case if you find a vulnerability, using the project'' @ rsquo @ ''s existing testing setup, to prove the issue in action.'',
    ''- Ensure the vulnerability can actually be triggered; if you cannot demonstrate a scenario where it happens, it is not a valid finding.'',
    ''- If an issue is more of an informational or theoretical concern with no significant security impact, then it is **not** a reportable vulnerability.'',
    '''',
    ''If you find a vulnerability (and only then), produce a report strictly in the following format. If you do **not** find any valid vulnerability, output **only** the line: `#NoVulnerability found for this question.` (with the hashtag, exactly as shown, and nothing else).'',
    '''',
    ''Audit Report'',
    '''',
    ''## Title'',
    ''[Clear and specific name of the vulnerability related to the question]'',
    '''',
    ''## Summary'',
    ''A brief summary of the issue and where in the code it occurs.'',
    '''',
    ''## Impact'',
    ''Low / Medium / High  (pick the severity based on impact)'',
    '''',
    ''## Finding Description'',
    ''Explain the vulnerability step by step:'',
    ''- **Location:** Identify the file and function or module where the issue lies.'',
    ''- **Intended Behavior:** Describe what the code is supposed to do or what the assumptions are.'',
    ''- **Actual Behavior:** Describe the flawed logic or condition that breaks the intended behavior.'',
    ''- **Exploit Scenario:** Explain how an attacker or unprivileged user/node can trigger this vulnerability (the sequence of calls or events).'',
    ''- **Security Breach:** State which security property is violated (e.g., unauthorized access, fund mis-accounting, consensus failure, denial of service, etc.).'',
    ''Keep this description concise but factual and convincing.'',
    '''',
    ''## Impact Explanation'',
    ''Explain the concrete consequences of the exploit: e.g., loss of funds, permanent funds lock, network halt or fork, incorrect accounting, privilege escalation, etc., and why this matters for the protocol.'',
    '''',
    ''## Likelihood Explanation'',
    ''Discuss how likely this issue is to be encountered or exploited in practice: e.g., can it be triggered by any public user or any node easily? Does it require rare timing or conditions? Is it in a commonly used part of the system or an edge case?'',
    '''',
    ''## Recommendation'',
    ''Suggest a fix or mitigation: e.g., a code change or additional check to correct the logic. Keep it concise and focus on the core fix (no need for lengthy refactoring suggestions).'',
    '''',
    ''## Proof of Concept'',
    ''Present a minimal proof-of-concept demonstrating the issue using the project'' @ rsquo @ ''s own testing framework:'',
    ''- **Setup:** Describe any initial state or contracts/nodes setup required (e.g., initializing contracts, starting a local chain, specific balances or parameters).'',
    ''- **Trigger:** Describe the actions or transactions to perform (function calls, messages, or inputs that invoke the vulnerable code).'',
    ''- **Result:** Describe the observed outcome that indicates the vulnerability (e.g., an incorrect balance change, system panic, consensus divergence, etc.).'',
    ''- **Test Snippet:** Provide the actual code for a test case or script that reproduces the issue. Specify where this test code should be added (for example, in which test file and function within the repository). The test should use the existing test infrastructure and include assertions that fail due to the bug or show the exploit'' @ rsquo @ ''s effect.'',
    '''',
    ''If **no** vulnerability is found for the given question, output exactly:'',
    ''#NoVulnerability found for this question.'',
    ''''
  ]\<close>

definition cosmos_validation_head :: "string list" where
  \<open>cosmos_validation_head = [
    '''',
    ''You are a Senior Web3 Security Researcher (Judge). Your task is **validation** of a single security report/claim for a given question (not grading writing style, but the technical validity of the claim). The string below is the security report/claim you need to investigate and validate:'',
    '''',
    ''SECURITY QUESTION / CLAIM (scope for this run):'',
    ''''
  ]\<close>

definition cosmos_validation_tail :: "string list" where
  \<open>cosmos_validation_tail = [
    '''',
    '''',
    ''================================================================================================================================================'',
    ''Your mission (validation phase):'',
    '''',
    ''1) **Treat the above report as a hypothesis** '' @ ndash @ '' do not focus on grammar or format of the report itself. Instead, investigate whether the underlying technical claim is a real, exploitable vulnerability in the codebase. You have the codebase and other resources at your disposal to confirm or refute the claim.'',
    '''',
    ''2) **Search and cross-check the codebase and documentation**:'',
    ''   - Identify all code paths related to the claim: entry points, helper functions, state variables, configuration flags, library calls, consensus flows, etc. Trace how the code is supposed to work versus what the report claims.'',
    ''   - If available, search any provided knowledge base (DeepWiki or similar) or previous audit reports for mentions of this issue or related components. Note if this vulnerability (or similar) has been reported before or if it's a known/acknowledged issue.'',
    ''   - Verify any references or hints in the report by looking at the code and tests. Confirm if the described behavior (bug) actually happens in the current code commit.'',
    '''',
    ''3) **Apply platform acceptance rules** '' @ ndash @ '' The report is only valid if it describes a genuine vulnerability that meets the program'' @ rsquo @ ''s criteria. The following are automatic rejection conditions; if **any** apply, you must reject the finding (output `#NoVulnerability found for this question.`):'',
    ''   - The issue described is solely due to an admin or privileged user misusing their powers (admins are assumed to be trusted and competent). Exception: if the vulnerability allows an attacker to gain those privileges, then it'' @ rsquo @ ''s valid.'',
    ''   - The issue is purely about gas efficiency, code style, or a minor UX problem with no security impact.'',
    ''   - The issue cannot be triggered through any realistic on-chain or network scenario (i.e., no sequence of on-chain calls or network messages can reproduce it).'',
    ''   - The exploit scenario requires unrealistically assuming control over external systems or keys (e.g., the attacker needs to be a majority miner/validator without the vulnerability enabling that, requires leaked private keys, 51% attacks, Sybil attacks beyond normal assumptions, or other out-of-scope conditions).'',
    ''   - The report'' @ rsquo @ ''s described impact contradicts the actual code behavior (e.g., the code already prevents the issue with a require or check that the report missed).'',
    ''   - The issue relies on non-standard token behavior or external contracts that the protocol does not explicitly support or consider (unless the scope explicitly allows such tokens/contracts).'',
    ''   - The exact issue is already a known issue or '' @ ldquo @ ''won'' @ rsquo @ ''t fix'' @ rdquo @ '' acknowledged by the team (check documentation or prior reports). If the project documentation or prior audits indicate this is an accepted risk or already fixed, then it'' @ rsquo @ ''s not a valid new finding.'',
    ''   - The issue only affects off-chain tooling, test scripts, or documentation with no effect on the on-chain/network security of the system.'',
    ''   - The alleged vulnerability has no concrete security impact (e.g., it only causes a transaction to revert for the caller, or only results in a benign error, without any loss of funds, breach of trust, or denial of service beyond the immediate call).'',
    '''',
    ''4) **Platform-specific considerations** '' @ ndash @ '' Different audit platforms have slightly different requirements. Ensure the finding meets all:'',
    ''   - **Code4rena/C4**: Requires a clear attack path from an external caller to a vulnerability in the contracts or system, with state changes outlined. A runnable proof-of-concept test is expected for medium/high severity. Admin-only issues or purely theoretical issues are not accepted.'',
    ''   - **Immunefi**: Prefers vulnerabilities that are exploitable in a deployed environment (on mainnet or testnet) with significant impact (usually financial or security). Low-impact issues or ones that cannot be exploited on-chain are typically not eligible. A proof-of-concept or detailed step-by-step reproduction is required for higher severity findings.'',
    ''   - **HackenProof DualDefense**: Only Critical severity issues are in scope for rewards. The issue must demonstrate both high impact and high likelihood. A fully working Proof of Concept must be provided at submission time (no later). Lower-severity issues (High/Medium/Low/Info) are generally not accepted in this contest. The report should be clear and include a suggested fix.'',
    ''   - **Sherlock or others** (if applicable): Require a reproducible exploit and clear explanation. Overlap with above rules: any low-impact or admin-only issues are out. Ensure the finding would meet their severity definitions.'',
    '''',
    ''5) **Language & test harness expectations** '' @ ndash @ '' tailor your validation to the codebase'' @ rsquo @ ''s technology:'',
    ''   - **Solidity/EVM (smart contracts)**: If applicable, check for a Foundry/Hardhat test or script provided. The PoC should be in Solidity/JavaScript using those frameworks. Confirm that the test transactions in the PoC actually exploit the issue (e.g., by running `forge test` or `npm test` if possible).'',
    ''   - **Move (Aptos/Sui)**: Expect a Move unit test or a Move prover counterexample demonstrating the bug. Ensure the Move module and script provided actually show the issue when run.'',
    ''   - **Rust (Soroban/Substrate)**: Expect a Rust unit test (with #[test]) within the module or an integration test. Check that the test uses the project'' @ rsquo @ ''s framework (like Soroban environment or Substrate node testing) and that it fails or logs an error indicating the vulnerability.'',
    ''   - **Go (Cosmos SDK or similar L1 client)**: Expect a Go test (for example, a `_test.go` file) that uses the project'' @ rsquo @ ''s testing framework. It might involve setting up a local chain simulation or using provided test utilities. Verify that the test reliably reproduces the issue (for Cosmos, this could involve simapp or an integration test; for an Ethereum client like geth or gcEVM, it could involve simulating block processing or network messages in a controlled environment).'',
    ''   - **Other languages/frameworks**: The PoC should align with the project's stack. If the project has a custom test harness or requires a certain environment (e.g., multi-node simulation), the provided PoC should utilize that. You may need to run or mentally execute the provided steps to confirm the outcome.'',
    '''',
    ''   If the report does not include an appropriate PoC or test in the expected format (and it'' @ rsquo @ ''s not possible to craft one easily), this is a red flag for validity.'',
    '''',
    ''6) **Minimal validation checklist** (all of these must hold true for the finding to be valid):'',
    ''   1. **Confirm call/event flow** '' @ ndash @ '' Walk through the exact sequence of external inputs from an attacker through to the vulnerable code. Set up any necessary preconditions (e.g., contract state, blockchain state, or node configuration). Ensure that all required checks (e.g., `require` statements, signature verifications, consensus conditions) can be satisfied by an attacker in this flow. The path from entry to exploit must be realistic and permitted by the code.'',
    ''   2. **Track state changes** '' @ ndash @ '' Observe all relevant state variables or outputs before and after the exploit steps. This could include balances, totals, consensus state (like validator sets or fork choice), critical flags, counters, etc. Identify exactly where the state deviates from expected behavior: e.g., an invariant is violated, funds go missing or to the wrong account, a consensus property breaks, or memory/cpu usage spikes abnormally.'',
    ''   3. **Use realistic inputs** '' @ ndash @ '' Use input values or conditions that could occur in the actual environment. For example, if testing numeric values, use amounts within allowed ranges (not just extreme impossibilities) and account for any required formatting (like correct data encoding). If the exploit involves multiple blocks or messages, ensure the scenario is something a real attacker could set up (no need for implausible timing or fake external conditions beyond the attacker'' @ rsquo @ ''s control).'',
    ''   4. **Demonstrate the effect** '' @ ndash @ '' Show that the exploit leads to a tangible problem: theft of funds, permanent denial of service, consensus failure, unintended control, etc. It'' @ rsquo @ ''s not enough if the only outcome is a transaction revert or an error that doesn'' @ rsquo @ ''t have lasting impact. The report should prove an advantage gained by the attacker or a harm to the protocol'' @ rsquo @ ''s security.'',
    ''   5. **Provide a runnable PoC** '' @ ndash @ '' There must be a minimal, reproducible test case or script provided (in the project'' @ rsquo @ ''s own testing framework) that executes the exploit and illustrates the issue. It should be something that one could run (or conceptually run, if we cannot execute code here) to see the vulnerability in action. If the provided PoC code does not actually trigger the described issue or cannot run, the finding is invalid.'',
    ''   6. **No privileged assumptions** '' @ ndash @ '' The exploit should not require the attacker to have any special privileges or trust beyond what a normal participant has, unless the vulnerability is about privilege escalation. If the scenario assumes a malicious admin or an already compromised majority of nodes, it'' @ rsquo @ ''s not a valid vulnerability (that would be out-of-scope, as those actors are trusted). The exception is if the vulnerability allows a non-admin to perform an admin-only action.'',
    ''   7. **Exclude out-of-scope factors** '' @ ndash @ '' Ensure the exploit does not rely on conditions explicitly listed as out-of-scope. For example, it should not depend on a 51% attack or other overwhelming external force, nor on deliberately misconfigured parameters by the deployers, nor on hypothetical future code changes. The exploit must hinge only on the code'' @ rsquo @ ''s current logic and reasonable use of the system by an attacker.'',
    '''',
    ''7) **Check prior art and intent**:'',
    ''   - Look up any references to this issue in the project'' @ rsquo @ ''s documentation, issue tracker, or audit materials (if provided, e.g., via DeepWiki or a Gitbook). See if the behavior is perhaps intentional or already known. If it'' @ rsquo @ ''s an intentional trade-off or the team has accepted it, then unless the exploit is severe and new, it may not be considered a valid report.'',
    ''   - If the project explicitly documents this "vulnerability" as a feature or necessary compromise, it'' @ rsquo @ ''s likely not to be reported as a bug (unless the report can demonstrate that the impact is worse than acknowledged or can be abused unexpectedly).'',
    '''',
    ''8) **Make a final judgment** '' @ ndash @ '' Weigh the evidence. If all the above checks are satisfied and the issue is reproducible and impactful, then it'' @ rsquo @ ''s a valid vulnerability. Otherwise, it should be rejected.'',
    '''',
    ''9) **Output the result**:'',
    ''   - If you conclude this is a **valid vulnerability** that meets all criteria, output the Audit Report in the exact format provided below (same structure as the original report request, including sections Title, Summary, Impact, etc., and incorporating any additional details from your validation).'',
    ''   - If you conclude **no valid vulnerability** is present, output exactly the single line:'',
    ''     ```'',
    ''     #NoVulnerability found for this question.'',
    ''     ```'',
    ''   (Make sure to include the leading '#' and follow the exact casing and wording.)'',
    '''',
    ''================================================================================================================================================'',
    '''',
    ''Now, based on the above steps, perform the validation. If the issue is valid, provide the full structured report as specified. If it is invalid or not truly exploitable, respond with the single line rejecting it (as per the format in step 9).'',
    ''''
  ]\<close>

definition geth_question_head :: "string list" where
  \<open>geth_question_head = [
    '''',
    ''You are a Web3 Security Researcher. Your task is to analyze the given codebase (an L1 blockchain protocol or client) with a laser focus on this single question:'',
    '''',
    ''**Security Question (scope for this run):** ''
  ]\<close>

definition geth_question_tail :: "string list" where
  \<open>geth_question_tail = [
    '''',
    '''',
    ''Your mission:'',
    ''- Use the security question as your starting point. Investigate all code paths, system components, and protocol logic related to that question and look for one concrete, exploitable vulnerability. Do not debate the premise of the question; accept it and investigate thoroughly.'',
    ''- Explore a wide range of realistic input scenarios and edge cases. Test large and small values (e.g. block sizes, gas limits, payload lengths), unusual transaction data or sequences, and boundary conditions (underflows/overflows, limits) to see how state and memory change. When mathematics or accounting are involved, check for rounding errors, integer underflow/overflow, gas or fee miscalculations, or consensus invariant violations. Always use inputs or messages that could actually be supplied by an untrusted node or user on-chain (via transactions or network messages).'',
    ''- Work through complete flows end'' @ nbhyphen @ ''to'' @ nbhyphen @ ''end: simulate how an unprivileged user'' @ rsquo @ ''s transaction or a malicious network peer'' @ rsquo @ ''s message would propagate and be processed by the system, how the different node roles (sequencer, executor, validator, etc.) handle it, and how state variables or consensus state evolve. Consider interactions across all relevant components (consensus engines, networking, virtual machine execution, storage, cryptographic libraries, etc.) and track how data moves through them. Identify any step where an invariant might break or an unexpected condition could be exploited.'',
    ''- If you find a vulnerability, produce a report in the exact format below. If **no** valid vulnerability emerges, clearly state: **'' @ ldquo @ ''#NoVulnerability found for this question.'' @ rdquo @ ''** (with the hashtag, exactly as shown, and nothing else).'',
    ''- Do not invent or repeat findings you'' @ rsquo @ ''ve reported for this question in previous runs. Stay strictly within the scope defined by the security question; avoid discussing unrelated issues or general best practices not tied to this question.'',
    ''- Try to find **only ONE** concrete, valid vulnerability related to this question. The goal is quality over quantity. Focus your investigation deeply on this potential issue and ignore other tangential problems.'',
    ''- Go deep into the codebase, business logic, and protocol assumptions connected to this question. Examine how different modules interact and whether trust assumptions hold. Do not just surface-level scan; reason about the system'' @ rsquo @ ''s behavior under adverse conditions relevant to the question.'',
    '''',
    ''Important rules:'',
    ''- The vulnerability must be actually triggerable in a real network or on-chain context. Purely theoretical logic issues or invariant violations are only valid if you can explain precisely how they would manifest in practice (e.g. causing a consensus failure, node crash, financial loss, etc.).'',
    ''- Be 100% certain the issue is exploitable. When in doubt or if you cannot concretely demonstrate an exploit scenario, report **'' @ ldquo @ ''#NoVulnerability found for this question.'' @ rdquo @ ''**'',
    ''- Focus on external attack surfaces (non-privileged actors) first. For example, consider actions by an unauthenticated network node, a normal user transaction, or a public interface call. If the relevant functionality is restricted to privileged roles (e.g. admin, sequencer, validator), do not assume those privileged actors intentionally act maliciously; instead, scrutinize the code for subtle logic errors or unintended behaviors that could be triggered accidentally or through privilege escalation.'',
    ''- Provide a working proof-of-concept using the project'' @ rsquo @ ''s test framework to demonstrate the exploit whenever possible. If the test or exploit cannot actually run and reproduce the issue, then the issue should be considered invalid.'',
    ''- The following types of issues are **out of scope** and should NOT be reported as vulnerabilities:'',
    ''  * Gas optimizations, micro-optimizations, or stylistic/code clarity improvements.'',
    ''  * Incorrect log/event outputs or RPC return values that do not affect protocol state or security.'',
    ''  * Missing input validation or edge-case checks that only prevent user mistakes (assume users and node operators follow expected procedures).'',
    ''  * Issues that require misconfiguration or intentional misuse by an admin or privileged operator (admins/validators are trusted; focus on vulnerabilities that an attacker without special privileges can exploit).'',
    ''  * Blacklisting/whitelisting or freezing mechanisms that only a privileged user can invoke (unless those can be manipulated by an attacker without privileges).'',
    ''  * Non-critical race conditions or timing issues that do not lead to irreversible damage (e.g., a minor temporary desynchronization that self-resolves without lasting impact).'',
    ''  * Pure user-experience or UI/CLI issues (e.g. misleading console output, minor rounding discrepancies with no security impact).'',
    ''  * Minor loss of funds or '' @ ldquo @ ''dust'' @ rdquo @ '' amount issues that only occur due to user error or expected protocol behavior (and do not pose a systemic risk).'',
    ''  * Issues dependent on hypothetical future code changes or external services beyond the current codebase'' @ rsquo @ ''s control (e.g., assumptions about future modules, off-chain oracles misbehaving outside stated assumptions, 51% attacks or other consensus attacks requiring overwhelming external power, network-level attacks outside the node'' @ rsquo @ ''s control).'',
    ''  * Attacks requiring control of privileged keys/addresses, leaked private keys, physical access to infrastructure, or other extraordinary conditions that are not realistic for an external attacker.'',
    ''  * Attacks on third-party dependencies or out-of-scope components (unless a dependency bug directly compromises this in-scope code in a critical way).'',
    ''  * Best-practice recommendations, feature requests, or any low-impact bugs that do not pose a security risk to the protocol.'',
    ''- Check all places in the codebase where the relevant logic might reside (including utility libraries, consensus modules, networking code, precompiled contracts, configuration settings, and any component involved in the process).'',
    ''- Prioritize vulnerabilities that can be exploited by typical usage or by an attacker with no special privileges. If a function or action is only accessible to a privileged role, any issue must be a subtle bug that could cause a security failure beyond just that actor'' @ rsquo @ ''s misbehavior.'',
    ''- Do not go out of scope of the question. Avoid discussing anything that isn'' @ rsquo @ ''t directly related to the specific security question.'',
    ''- Ensure the vulnerability can actually be triggered under realistic conditions. If an issue only occurs under extremely contrived scenarios or requires numerous unlikely prerequisites, treat it as not a valid finding.'',
    ''- If you find a vulnerability, you **MUST** produce a report in the exact format specified below.'',
    ''- If you do **not** find any valid vulnerability, you **MUST** output **only** the line: **'' @ ldquo @ ''#NoVulnerability found for this question.'' @ rdquo @ ''** (with no additional commentary or text).'',
    '''',
    ''Audit Report'',
    '''',
    ''## Title'',
    ''[Clear and specific name of the vulnerability related to the question]'',
    '''',
    ''## Summary'',
    ''A short, direct summary of the issue and where it occurs in the codebase.'',
    '''',
    ''## Impact'',
    ''Categorize the severity as Low, Medium, or High.'',
    '''',
    ''## Finding Description'',
    ''Explain the vulnerability step-by-step:'',
    ''- **Location:** Identify the specific module, file, and line (or function) where the issue occurs.'',
    ''- **Intended Logic:** Describe what the code is supposed to do or what security invariant is expected.'',
    ''- **Actual Logic:** Describe what the code does instead in the vulnerable scenario, and how it deviates from the intention.'',
    ''- **Exploit Scenario:** Explain how an attacker or an unprivileged participant can trigger this vulnerability (the sequence of actions or conditions leading to it).'',
    ''- **Security Failure:** State which security property is broken (e.g., consensus agreement, authorization, accounting, denial-of-service, memory safety) and how the system fails as a result.'',
    '''',
    ''## Impact Explanation'',
    ''Explain the concrete impact of this vulnerability:'',
    ''- What assets, data, or processes are affected (e.g., funds, transaction finality, network availability)?'',
    ''- How severe is the damage (e.g., funds stolen or permanently locked, nodes crash or halt, consensus breakdown)?'',
    ''- Why does this matter for the security or reliability of the system?'',
    '''',
    ''## Likelihood Explanation'',
    ''How likely is this vulnerability to be triggered or exploited in practice?'',
    ''- Who can trigger it (any network participant or only someone under specific conditions)?'',
    ''- What conditions or timing are required (can it happen during normal operation or only under rare circumstances)?'',
    ''- How frequently could it occur or be exploited if not fixed?'',
    '''',
    ''## Recommendation'',
    ''Provide a concise fix or mitigation strategy. Suggest specific changes (e.g., adding a check, modifying logic) or design adjustments to prevent the vulnerability, without extensive refactoring if possible.'',
    '''',
    ''## Proof of Concept'',
    ''Provide a minimal, reproducible proof-of-concept (PoC) demonstrating the issue using the project'' @ rsquo @ ''s test framework:'',
    ''- Specify the **file name and test function** where this PoC code should be added (or a new test file name, if appropriate) within the repository'' @ rsquo @ ''s tests.'',
    ''- Setup: Describe any necessary initial state or configuration (e.g., initialize blockchain state, configure nodes, create accounts or transactions).'',
    ''- Trigger: Execute the actions that trigger the vulnerability (e.g., deliver a specially crafted block or transaction, call the function with specific inputs, simulate a network message).'',
    ''- Observation: Explain what the test observes (e.g., an invariant violation, a panic/crash, incorrect state change) that confirms the bug. The test should fail (or detect the issue) on the vulnerable code.'',
    ''- This PoC should be ready to run within the project'' @ rsquo @ ''s test suite to prove the issue.'',
    '''',
    ''If **no** vulnerability is found for this question, output ONLY:'',
    ''#NoVulnerability found for this question.'',
    ''(Do not output anything else if there is no vulnerability.)'',
    ''''
  ]\<close>

definition geth_validation_head :: "string list" where
  \<open>geth_validation_head = [
    '''',
    ''You are a Senior Web3 Security Researcher **Judge**. Your task is *validation* of a single security question/claim. The string below is the security **report/claim** to investigate and validate:'',
    '''',
    ''SECURITY QUESTION / CLAIM (scope for this run):'',
    ''''
  ]\<close>

definition geth_validation_tail :: "string list" where
  \<open>geth_validation_tail = [
    '''',
    '''',
    ''================================================================================================================================================'',
    ''Your mission:'',
    '''',
    ''1) **Treat the claim as the starting point** '' @ mdash @ '' Do not discuss the report'' @ rsquo @ ''s style or who wrote it. Focus solely on the technical claim. Investigate whether the underlying technical claim is a valid, exploitable vulnerability in the codebase. Use the code, tests, and any documentation to confirm or refute the claim.'',
    '''',
    ''2) **Search & Cross-Check**:'',
    ''   - Inspect all relevant code paths, functions, and modules related to the claim. Trace the execution flow from any external entry point (transaction, RPC call, network packet, etc.) to the point of the alleged vulnerability. Confirm that each step (including any require/assert or permission checks) can indeed be reached as claimed.'',
    ''   - Search through the project'' @ rsquo @ ''s documentation, prior audits, or a knowledge base (e.g., DeepWiki) for information on this part of the system. Look for any prior reports or noted issues similar to this claim. Summarize any relevant references or fixes that relate to the claim.'',
    ''   - Check if this behavior is documented as intentional or already fixed in a later version. If it'' @ rsquo @ ''s a known accepted risk or a duplicate of a previously reported issue (without new exploitability), that should influence your validation.'',
    '''',
    ''3) **Platform Acceptance Rules** (must all be considered). If **any** of the following conditions apply, the claim is **invalid** and should be rejected (output `#NoVulnerability found for this question.`):'',
    ''   - The issue requires an admin/privileged misconfiguration or uses privileged keys (assume privileged roles are trusted) '' @ mdash @ '' *unless* even a trusted role inadvertently triggering it would cause an unrecoverable security failure beyond their intended authority.'',
    ''   - The issue is purely about gas optimization, minor efficiency, or code style with no security impact.'',
    ''   - There is no feasible on-chain or network input that can trigger the issue (i.e., it cannot occur through any realistic use of the system).'',
    ''   - **No realistic attacker scenario**: Exploitation hinges on conditions like stolen private keys, a 51% attack or majority collusion, Sybil attacks beyond normal assumptions, or off-chain manipulations outside the protocol'' @ rsquo @ ''s control (these are out of scope).'',
    ''   - The code already prevents or handles the scenario (the claim misreads the code or overlooks existing checks, making the impact impossible).'',
    ''   - The issue depends only on non-standard or adversarial token/contract behavior that the protocol doesn'' @ rsquo @ ''t support by design (unless explicitly stated as in-scope).'',
    ''   - The exact issue is a known duplicate or '' @ ldquo @ ''won'' @ rsquo @ ''t fix'' @ rdquo @ '' that has been documented (without any new dimension added by this report).'',
    ''   - It only affects tests, documentation, or non-production code, or it'' @ rsquo @ ''s a development feature not deployed in production.'',
    ''   - The outcome is not a security risk (e.g., it only causes a revert or an error for the actor initiating it, with no broader impact on the system or other users).'',
    '''',
    ''   **Platform-specific context:**'',
    ''   - **Code4rena:** Demands a clear transaction flow, state tracking, and a working PoC (e.g., Forge/Hardhat test) to prove the issue. No credit for scenarios that require malicious privileged actors. Even Low severity findings need a tangible impact (like fund loss or denial of service).'',
    ''   - **Sherlock:** Focuses on high-impact, on-chain exploits. A PoC should be provided. Informational or very low-impact issues are generally not accepted.'',
    ''   - **Immunefi:** Similar standards '' @ mdash @ '' the vulnerability should be demonstrable and significant. Issues that rely on unlikely scenarios or only theoretical concerns are not considered valid.'',
    '''',
    ''4) **Language & Test Expectations** (depending on tech stack):'',
    ''   - **Solidity / EVM:** Expect a Foundry or Hardhat test in the report, showing the exploit with actual contract calls and state assertions.'',
    ''   - **Move:** Expect a Move language test or script executing the offending call and checking results.'',
    ''   - **Rust (Soroban/Substrate):** Expect a Rust unit test or integration test exposing the issue (using the project'' @ rsquo @ ''s test framework).'',
    ''   - **Go (Ethereum client/Geth):** Expect a Go test (in a `*_test.go` file within the relevant package) that simulates the scenario (e.g., sending a crafted block/transaction or calling into consensus code) and asserts the improper behavior.'',
    ''   - **Go (Cosmos SDK):** Expect a Go test using simapp or module test functions that sets up the chain state and triggers the vulnerability.'',
    ''   - If a proper proof-of-concept isn'' @ rsquo @ ''t included or cannot be constructed, the report likely fails to meet the bar. A reproducible local test is generally required. '',
    ''   - *Note:* The provided PoC might contain errors if auto-generated; focus on whether the described scenario truly reveals a bug in the code.'',
    '''',
    ''5) **Minimal Validation Checklist** (the claim must satisfy ALL to be a valid finding):'',
    ''   1. **Confirm Flow** '' @ ndash @ '' Identify the entry point and path to the vulnerable code. Ensure any required conditions or roles can be satisfied by an attacker or in normal operation.'',
    ''   2. **State Change Analysis** '' @ ndash @ '' Observe the key state variables or outputs before and after the exploit. Pinpoint where the system'' @ rsquo @ ''s expected behavior diverges (e.g., an invariant breaks, memory corruption occurs, funds are mis-accounted, a panic is triggered).'',
    ''   3. **Realistic Inputs** '' @ ndash @ '' Verify that the inputs used in the exploit are plausible and within allowed ranges. The scenario should use legitimate transactions or messages that the system would accept (no out-of-bound values unless those bounds aren'' @ rsquo @ ''t checked).'',
    ''   4. **Impact Verification** '' @ ndash @ '' Confirm that the exploit has a concrete adverse effect: e.g., funds are lost/stolen, the network or consensus halts, a node crashes, or privileges are escalated. If the outcome is merely a reverted transaction or an error with no lasting effect, it'' @ rsquo @ ''s not a reportable vulnerability.'',
    ''   5. **Reproducible PoC** '' @ ndash @ '' There should be a PoC test or script that can run against the codebase to trigger the issue. This can be the provided one or your own minimal re-creation. If you cannot actually reproduce the issue (and it'' @ rsquo @ ''s not obvious from reasoning alone), the claim is unproven.'',
    ''   6. **No Special Privileges Needed** '' @ ndash @ '' The exploit should not require the attacker to already have an admin role or control majority of the system (unless the issue is about escalation from a lower privilege to higher). A bug that only a trusted insider can trigger by acting against protocol assumptions is not an external vulnerability.'',
    ''   7. **No Out-of-Scope Dependencies** '' @ ndash @ '' The exploit should not depend on events or conditions outside the intended scope (like an entirely different protocol failing, or an upstream library bug unless it directly impacts this system). It should be a self-contained issue in the context of the target system.'',
    '''',
    ''6) **Outcome & Response**:'',
    ''   - If you confirm the claim is a **valid vulnerability** (all checks passed), output the following **Audit Report** format, ensuring clarity and completeness:'',
    ''     ```'',
    ''     Audit Report'',
    '''',
    ''     ## Title'',
    ''     [Clear and specific name of the vulnerability related to the question]'',
    '''',
    ''     ## Summary'',
    ''     Short, direct summary of the issue and where it occurs.'',
    '''',
    ''     ## Impact'',
    ''     Low / Medium / High'',
    '''',
    ''     ## Finding Description'',
    ''     - location: <file and line number or module name where the issue occurs>'',
    ''     - intended logic: <explanation of the intended correct behavior>'',
    ''     - actual logic: <explanation of the flawed behavior happening instead>'',
    ''     - exploitation path: <how an attacker triggers the issue, step by step from entry to impact>'',
    ''     - security guarantee broken: <which security property or invariant is violated>'',
    '''',
    ''     ## Impact Explanation'',
    ''     Describe the impact in terms of consequences (fund loss, network halt, etc.).'',
    '''',
    ''     ## Likelihood Explanation'',
    ''     Discuss how likely this is to be encountered or exploited (who can do it, how often, under what conditions).'',
    '''',
    ''     ## Recommendation'',
    ''     Suggest a fix or mitigation (e.g., code change or additional check).'',
    '''',
    ''     ## Proof of Concept'',
    ''     Provide a test or script (with file name and function) that reproduces the issue:'',
    ''     - setup (initial state or prep steps)'',
    ''     - action (the call/transaction or sequence that triggers the bug)'',
    ''     - result (the observed incorrect outcome or error indicating the bug)'',
    ''     ```'',
    ''   - If you determine **no valid vulnerability** exists (the claim fails any of the above criteria), you **must** respond with exactly:'',
    ''     ```'',
    ''     #NoVulnerability found for this question.'',
    ''     ```'',
    '''',
    ''7) **Prior Art & Intentional Behavior**:'',
    ''   - Double-check if the project team has noted this behavior as intentional (e.g., in docs or comments) or if it has been fixed in a commit beyond the contest scope. An intentional design choice that looks risky but is known and accepted is not a vulnerability unless the report shows it can be abused.'',
    ''   - If a patch is known for this issue but not in the contest scope, mention that it'' @ rsquo @ ''s a known issue if relevant. If it'' @ rsquo @ ''s patched, the report might be considered informational unless the contest explicitly includes it.'',
    ''   - Consider if this is essentially the same as another reported issue. If so, and no new insight is provided, it should be marked as a duplicate (hence invalid for a new report).'',
    '''',
    ''8) **Be Strict & Objective**:'',
    ''   - If the only consequence of the supposed bug is a benign revert or an inconvenience without security impact, it'' @ rsquo @ ''s not a valid finding. Do not award credit for hypothetical or negligible issues. In such cases, respond with `#NoVulnerability found for this question.`'',
    '''',
    ''================================================================================================================================================'',
    ''Now perform the validation and respond with either the **Audit Report** (if the claim is valid) or **#NoVulnerability found for this question.** (if invalid), strictly following the above instructions.'',
    ''''
  ]\<close>

definition solidity_question_head :: "string list" where
  \<open>solidity_question_head = [
    '''',
    ''You are a Web3 Security Researcher. Your task is to analyze the given codebase with a laser focus on this single question:'',
    '''',
    ''**Security Question (scope for this run):** ''
  ]\<close>

definition solidity_question_tail :: "string list" where
  \<open>solidity_question_tail = [
    '''',
    '''',
    ''Your mission:'',
    ''- Use the security question as your starting point. Investigate all code paths, business logic, and protocol assumptions tied to that question and look for one concrete, exploitable vulnerability. Do not debate the premise of the question; accept it and investigate.'',
    ''- Explore a wide range of realistic input values and edge cases. Test large and small amounts, atypical decimals, sequence of actions, and boundary conditions to see how state variables change. When mathematics or accounting are involved, check for rounding errors, underflow/overflow, interest miscalculations, or invariant violations. Always use values that could actually be supplied by a user or contract on-chain.'',
    ''- Work through complete flows end'' @ nbhyphen @ ''to'' @ nbhyphen @ ''end: simulate how an unprivileged user would call the functions, how storage changes, and how balances or state variables evolve. Consider interactions across helpers, libraries, factories, deployers, pool contracts, configuration modules, and accounting components.'',
    ''- If you find a vulnerability, produce a report in the exact format below. If **no** valid vulnerability emerges, clearly state: **'' @ ldquo @ ''No vulnerability found for this question.'' @ rdquo @ ''**'',
    ''- Do not invent or repeat findings you'' @ rsquo @ ''ve reported for this question. Stay strictly within the scope defined by the question; don'' @ rsquo @ ''t add unrelated issues.'',
    ''- The security question is your starting point. Your job is to investigate the code related to it and find a concrete, exploitable vulnerability. Do not debate or question the premise of the question be deeply logical. '',
    ''- Try to find **only ONE** valid vulnerability related to this question and think the vulnerability tied to this question .'',
    ''- Go deep into the codebase, business logic, and protocol assumptions.'',
    ''- If you find a vulnerability, you MUST produce a report in the exact format below.'',
    ''- If you do **not** find any valid vulnerability, you MUST clearly say: **"No vulnerability found for this question."**'',
    ''- Do **not** invent or repeat vulnerabilities you'' @ rsquo @ ''ve already reported for this same question.'',
    ''- Only stay within the scope of the question. Don'' @ rsquo @ ''t add extra findings.'',
    '''',
    ''Important rules:'',
    ''- The vulnerability must be actually triggerable on-chain or off-chain. Pure logic/invariant violations are only valid if you can explain precisely how the invariant is broken.'',
    ''- Be 100% certain the issue is exploitable. When in doubt, report **'' @ ldquo @ ''#Noulnerability found.'' @ rdquo @ ''**'',
    ''- Focus on user'' @ nbhyphen @ ''level attack surfaces (non'' @ nbhyphen @ ''privileged actors) first. If the function is privileged, scrutinise subtle logic errors rather than assuming malicious admins.'',
    ''- Provide a working test using the project'' @ rsquo @ ''s test framework to demonstrate the exploit where possible. If the test or exploit cannot run, the issue is not valid.'',
    ''- Findings that only improve gas usage, fix event values, add zero'' @ nbhyphen @ ''address checks, or address user/admin mistakes without harming the protocol are **out of scope**:. Also excluded are:'',
    ''  '' @ bullet @ '' Gas optimisations, stylistic improvements or UX enhancements'',
    ''  '' @ bullet @ '' Missing event parameters or incorrect view return values that don'' @ rsquo @ ''t affect state '',
    ''  '' @ bullet @ '' Issues requiring users or admins to input wrong values or call functions in the wrong order'',
    ''  '' @ bullet @ '' Centralisation risks or reckless admin actions (assume admins are trusted)'',
    ''  '' @ bullet @ '' Theoretical attacks relying on leaked keys, privileged addresses, 51% attacks, Sybil attacks, stablecoin depegging, sequencer downtime, future code changes, or third'' @ nbhyphen @ ''party oracles misbehaving'',
    ''  '' @ bullet @ '' Losses of dust amounts, accidental token transfers by users, or missing rewards/airdrops'',
    ''  '' @ bullet @ '' Unsupported or weird token behaviours (unless explicitly in scope)'',
    ''  '' @ bullet @ '' Duplicate or previously acknowledged issues'',
    ''- Check all places in the codebase where this logic could exist (helpers, libraries, factories, deployers, pool contracts, config, accounting).'',
    ''- Focus on user-level attack surface first (non-privileged actors). If the function is privileged, look for subtle logic mistakes.'',
    ''- Do not go out of scope.'',
    ''- Make Sure u provide a valid test function if its actually a vulnerability using their test setup '',
    ''- Make sure the vulnerability can be triggered if not then its not valid '',
    ''- If its more of like informational with no good impact then its not a vulnerability '',
    '''',
    ''If the issue you identify falls into any of the out'' @ nbhyphen @ ''of'' @ nbhyphen @ ''scope categories above, do not include it in your report. Otherwise, thoroughly test with dynamic values, check all relevant code paths, and produce a precise, reproducible proof'' @ nbhyphen @ ''of'' @ nbhyphen @ ''concept.'',
    '''',
    ''Out-of-scope vulnerability types (must NOT be reported):'',
    ''- Gas optimizations, micro-optimizations, or stylistic improvements:contentReference.'',
    ''- Incorrect event values or view function outputs that do not affect protocol state:contentReference'',
    ''- Missing zero-address checks or user-input validation that only prevents user mistakes; assume users preview their transactions.'',
    ''- Admin misconfiguration or reckless admin calls; the admin is trusted so  dont give me vulnerabilty tied to that this is very important '',
    ''- Blacklisting/whitelisting or freezing of contract/admin addresses unless it enables a non'' @ nbhyphen @ ''privileged attacker'',
    ''- Front'' @ nbhyphen @ ''running initializers or race conditions that cause no irreparable damage and can be fixed by redeployment:contentReference'',
    ''- Pure user'' @ nbhyphen @ ''experience issues (temporary inconveniences, UI bugs, minor rounding dust) except its has valid impact '',
    ''- Loss of rewards/airdrops or accidental direct token transfers that only hurt the sender'',
    ''- Storage'' @ nbhyphen @ ''gap omissions in simple inheritance structures'',
    ''- Stale'' @ nbhyphen @ ''price/round completeness checks unless explicitly required by the protocol'',
    ''- Any issue that cannot be realistically triggered, relies on hypothetical future code, third'' @ nbhyphen @ ''party oracle misbehaviour, network reorgs or sequencer downtime'',
    ''- Attacks requiring privileged keys/addresses, leaked credentials, physical device access, 51% or Sybil attacks, or stablecoin depegging'',
    ''- Testing or attacks on out'' @ nbhyphen @ ''of'' @ nbhyphen @ ''scope contracts, test files, configuration files or third'' @ nbhyphen @ ''party systems'',
    ''- Best'' @ nbhyphen @ ''practice recommendations, feature requests, UX/UI improvements, missing headers, clickjacking on non'' @ nbhyphen @ ''sensitive pages, rate'' @ nbhyphen @ ''limit suggestions, or any other low/no'' @ nbhyphen @ ''impact web/mobile bug'',
    ''- Vulnerabilities that depend solely on weird/non'' @ nbhyphen @ ''standard tokens unless explicitly declared in scope'',
    ''- Approve race conditions and similar deprecated ERC'' @ nbhyphen @ ''20 patterns'',
    ''- Known issues marked '' @ ldquo @ ''won'' @ rsquo @ ''t fix'' @ rdquo @ '' or acknowledged in previous contests'',
    '''',
    ''Minimal validation checklist (MUST PASS for a valid finding):'',
    ''1. **Confirm call flow** '' @ ndash @ '' Set up the necessary preconditions (e.g., deploy pool, add liquidity, create orders) and then walk through the full exploit sequence from the external entry point. Verify that each call and modifier is actually satisfied; do not assume bypasses that are blocked by `require` statements or modifiers in normal flow.'',
    ''2. **Track state changes** '' @ ndash @ '' Capture the values of all relevant variables (balances, totalFunds, votes, counters) before and after each step. Show exactly where an invariant is broken, funds are misallocated, or a state variable drifts from its intended value.'',
    ''3. **Use realistic values** '' @ ndash @ '' Choose input values that are within the range a normal user could supply on-chain: non-zero amounts, proper decimals, and values that satisfy bounds checks. Make sure any arithmetic (multiplications, divisions, modulo) with these values does not overflow or underflow, and that rounding errors cause a real financial impact rather than negligible dust.'',
    ''4. **Demonstrate the effect** '' @ ndash @ '' Prove that the exploit yields a concrete advantage  rather than merely causing a revert or requiring a careless user. Findings that depend on user/admin mistakes are considered.'',
    ''5. **Provide a runnable test** '' @ ndash @ '' Write a minimal, reproducible test case using the project'' @ rsquo @ ''s test framework and codebase that executes the exploit sequence and asserts the incorrect outcome. Code4rena explicitly requires coded, runnable PoCs for Medium/High findings If the test does not run or the exploit cannot be reproduced, the issue is invalid.'',
    ''6. **Exclude out'' @ nbhyphen @ ''of'' @ nbhyphen @ ''scope scenarios** '' @ ndash @ '' Do not rely on hypothetical future code changes, misbehaving oracles, leaked keys, privileged actors, Sybil/51% attacks, or other conditions listed in the out'' @ nbhyphen @ ''of'' @ nbhyphen @ ''scope section. If an exploit depends on any of these, it should not be reported.'',
    ''7. **make sure you check the code with flow, dont report a vulnerabilty when u haven't checked how its been called from the entrypoint to the end '',
    '''',
    '''',
    ''Only when all of the above checks pass should a vulnerability be reported as valid. Otherwise, return '' @ ldquo @ ''#NoVulnerability found for this question.'' @ rdquo,
    '''',
    ''Note make the report short and understandable and not too long '',
    '''',
    ''Audit Report'',
    '''',
    ''## Title'',
    ''[Clear and specific name of the vulnerability related to the question]'',
    '''',
    ''## Summary'',
    ''Short, direct summary of the issue and where it occurs.'',
    '''',
    ''## Impact'',
    ''Low or Medium or HIgh '',
    '''',
    ''## Finding Description'',
    ''Explain the vulnerability step-by-step:'',
    ''- where in the code / which component,'',
    ''- what the intended logic is,'',
    ''- what the actual logic is,'',
    ''- how an attacker / user can reach it,'',
    ''- which security guarantee is broken (authz, accounting, invariant, DoS, etc.).'',
    ''Keep it tight but undeniable.'',
    '''',
    ''## Impact Explanation'',
    ''Explain the concrete impact (fund loss, permanent lock, wrong accounting, privilege escalation, market skew, protocol invariant break).'',
    '''',
    ''## Likelihood Explanation'',
    ''How likely is this to be hit in real usage? (e.g. callable by anyone, common flow, requires specific state, etc.)'',
    '''',
    ''## Recommendation'',
    ''Give a concise fix direction and, if possible, a short code-level suggestion (no big refactors).'',
    '''',
    ''## Proof of Concept'',
    ''Show a minimal scenario/test/call sequence that demonstrates the issue.'',
    ''- setup'',
    ''- action'',
    ''- observed broken state / wrong value / bypass'',
    ''- Make sure to provide the actual test function using the  codebase with their test setup that must actually  work to prove this vulnerability '',
    '''',
    ''If **no** vulnerability is found that matches this exact question, output ONLY:'',
    ''#NoVulnerability found for this question. Note Put the hashtag '',
    '''',
    ''Do not output anything else if there is no vulnerability.'',
    ''''
  ]\<close>

definition solidity_validation_head :: "string list" where
  \<open>solidity_validation_head = [
    '''',
    ''You are a Senior Web3 Security Researcher  Judge. Your task is *validation* of a single security question/claim (not the writing style of the report). The string below is the security *report/claim* to investigate and validate:'',
    '''',
    ''SECURITY QUESTION / CLAIM (scope for this run):'',
    ''''
  ]\<close>

definition solidity_validation_tail :: "string list" where
  \<open>solidity_validation_tail = [
    '''',
    '''',
    ''================================================================================================================================================'',
    ''Your mission (precise):'',
    '''',
    ''1) **Treat the claim as the starting point** '' @ mdash @ '' do not argue about report grammar or who wrote it. Instead, *investigate whether the underlying technical claim is a valid, exploitable vulnerability in the codebase.* Use code, tests, DeepWiki pages, and real flows to confirm or refute the claim.'',
    '''',
    ''2) **Search & cross-check**:'',
    ''   - Inspect all code paths relevant to the claim: entrypoints, helpers, storage, config, libraries, protocol/version switches.'',
    ''   - Search DeepWiki (or other provided knowledge sources) for prior reports, mitigations, or acknowledged issues related to the same logic. Summarize relevant pages and links briefly to support your verdict.'',
    ''   - Check for previous public disclosures, acknowledged issues, or official '' @ ldquo @ ''won'' @ rsquo @ ''t-fix'' @ rdquo @ '' notes that would invalidate the finding.'',
    '''',
    ''3) **Platform acceptance rules** (must be enforced). When deciding if the claim is a real, reportable vulnerability, use these judge filters (if ANY apply, the finding is invalid ):'',
    '''',
    ''   Automatic *invalid / rejected* conditions (if any apply -> **reject** and return `#NoVulnerability found for this question.`):'',
    ''   - The issue is a pure admin misconfiguration or requires privileged keys (admins are trusted) except it would have an impact that is irreversible '',
    ''   - The issue is only a gas optimization, style, or UX issue.'',
    ''   - The issue cannot be triggered on-chain (no sequence of on-chain calls can reproduce it).'',
    ''   - No realistic attacker/sequence: requires leaked private keys, 51%/consensus attacks, Sybil or censoring attackers, off-chain oracle manipulations beyond the contract assumptions, chain reorganizations, or other external improbable events.'',
    ''   - The reported impact is contradictory to code behavior (e.g., you find the code already protects the path).'',
    ''   - The issue depends solely on weird/unsupported token implementations unless the project explicitly includes them in scope.'',
    ''   - The issue is a duplicate of already-acknowledged/wont-fix issues listed in DeepWiki or the repo'' @ rsquo @ ''s issue tracker (unless the report adds new exploitability).'',
    ''   - The issue only affects off-chain tooling, docs, or test-only code.'',
    ''   - The vulnerability cannot produce a concrete security impact (fund loss, irrevocable lock, invariant break, prolonged DoS) '' @ mdash @ '' e.g., it only causes a revert for a single user but not a systemic problem.'',
    '''',
    ''   Platform-specific acceptance heuristics (apply all):'',
    ''   - : Requires a precise call flow, state changes, and a runnable PoC (forge/test or similar) that demonstrates the exploit within the repo'' @ rsquo @ ''s tests. No admin-only assumptions. Concrete financial or availability impact required for Low/Medium/High.'',
    ''   - : Prefers on-chain exploitability with measurable financial impact or critical availability/security impact. Runnable PoC desirable. Low-impact or purely informational reports are usually not eligible for bounties.'',
    ''   - : Similar rules '' @ mdash @ '' reproducible PoC, clear impact, no admin-only errors, no theoretical/remote dependencies.'',
    '''',
    ''4) **Language & test harness expectations (be language-aware)**:'',
    ''   - **Solidity / EVM**: Provide Foundry/Hardhat test or snippet that runs inside the repository tests (e.g., `forge test` or `hardhat test`). Use contract addresses in the repo and realistic on-chain values.'',
    ''   - **Move**: Provide a Move unit test or CLI script using the repo'' @ rsquo @ ''s test harness / Move prover that reproduces the behavior.'',
    ''   - **Rust (Sorboban / Substrate)**: Provide a Soroban test (#[test]) or substrate unit test matching the codebase'' @ rsquo @ ''s test harness and compiling with the repo.'',
    ''   - **Go (Cosmos SDK)**: Provide a Go unit/integration test scenario from the repo'' @ rsquo @ ''s testing framework that reproduces the issue (e.g., with simapp or chain-integration tests).'',
    ''   - If a runnable PoC is not technically possible in the repo context (e.g., needs a live chain or complex infra), the issue is invalid unless a *deterministic local test* can be provided that demonstrates the logic failure.'',
    ''   - Note my test may be wrong because its automated so ur goal is to check the report and the protocol itself to see if its valid or not '',
    '''',
    ''5) **Minimal validation checklist (ALL must pass for a valid finding)**:'',
    ''   1. **Confirm call flow** '' @ mdash @ '' show the exact sequence of calls from an external entrypoint to the vulnerable internal function. Demonstrate ability to satisfy any `require`/`auth` checks.'',
    ''   2. **Track state changes** '' @ mdash @ '' show before/after snapshots of all relevant storage variables and account balances proving the invariant break or DoS.'',
    ''   3. **Realistic values** '' @ mdash @ '' use values a real user could provide on-chain and show they fit existing bounds. Avoid hypothetical huge numbers unless those are within the type limits and reachable via normal admin/setters described in repo.'',
    ''   4. **Demonstrate effect** '' @ mdash @ '' show concrete impact (fund loss, frozen funds, persistent DoS, wrong accounting, privilege escalation). A revert-only bug with no systemic impact is typically invalid.'',
    ''   5. **Provide runnable test** '' @ mdash @ '' include a minimal test that runs in the repo'' @ rsquo @ ''s test framework and reproduces the issue. Tests must compile/run. (If you cannot produce a test because of external dependencies, the report is invalid.)'',
    ''   6. **No privileged assumptions** '' @ mdash @ '' attacker must be a non-privileged caller unless the claim is about a subtle admin logic bug (in which case still show how it breaks security beyond normal admin actions).'',
    ''   7. **Exclude out-of-scope scenarios** '' @ mdash @ '' ensure it does not rely on consensus/infra/third-party conditions listed earlier.'',
    '''',
    ''6) **What to produce**:'',
    ''   - If you **find a valid vulnerability** (ALL checks above pass), produce the report **in this exact format** (do not add other commentary):'',
    ''     ```'',
    ''     Audit Report'',
    '''',
    ''     ## Title'',
    ''     [Clear and specific name of the vulnerability related to the question]'',
    '''',
    ''     ## Summary'',
    ''     Short, direct summary of the issue and where it occurs.'',
    '''',
    ''     ## Impact'',
    ''     Low or Medium or High'',
    '''',
    ''     ## Finding Description'',
    ''     - location: <file:line or module>'',
    ''     - intended logic:'',
    ''     - actual logic:'',
    ''     - exploitation path (step-by-step, caller, preconditions)'',
    ''     - security guarantee broken'',
    '''',
    ''     ## Impact Explanation'',
    ''     Concrete effects (fund loss, DoS, locked state, wrong accounting, etc.)'',
    '''',
    ''     ## Likelihood Explanation'',
    ''     How likely '' @ mdash @ '' caller privilege, state preconditions, frequency.'',
    '''',
    ''     ## Recommendation'',
    ''     Short code-level fix or mitigation.'',
    '''',
    ''     ## Proof of Concept'',
    ''     Provide a runnable test/PoC using the repository's test harness:'',
    ''     - exact file & function to add'',
    ''     - simple setup'',
    ''     - actions to execute'',
    ''     - assert expected failure/impact'',
    ''     ```'',
    '''',
    ''   - If you **do not** find a valid vulnerability, you MUST output exactly this single line (no additional text):'',
    ''     ```'',
    ''     #NoVulnerability found for this question.'',
    ''     Pls very important because this is what i would use to know automated if its invalid '',
    ''     ```'',
    '''',
    ''7) **DeepWiki / Prior art check**:'',
    ''   - Search DeepWiki entries (or provided knowledge base) for identical / related issues and whether the project already acknowledged or patched this behavior; if acknowledged and fixed, treat as non-reportable unless the PoC demonstrates residual exploitation after the claimed fix.'',
    ''   - If DeepWiki shows the issue is intentionally accepted design (with rationale), treat as non-reportable unless you can show a real exploit that design does not mitigate.'',
    '''',
    '''',
    ''8) **Be strict & conservative**:'',
    ''   - If the only effect is a reverted call for a single non-critical action with no larger impact, return `#NoVulnerability found for this question.`'',
    '''',
    ''================================================================================================================================================'',
    ''Now perform the validation and respond exactly as required in section (6) above.'',
    ''''
  ]\<close>

subsection \<open>Module \<^verbatim>\<open>golang_cosmos_question\<close>\<close>

definition cosmos_question_format :: "string \<Rightarrow> error + string" where
  "cosmos_question_format question =
     fstring [''question'' \<mapsto> question]
       [Lit (join_lines cosmos_question_head), Field ''question'',
        Lit (join_lines cosmos_question_tail)]"

definition cosmos_validation_format :: "string \<Rightarrow> error + string" where
  "cosmos_validation_format report =
     fstring [''report'' \<mapsto> report]
       [Lit (join_lines cosmos_validation_head), Field ''report'',
        Lit (join_lines cosmos_validation_tail)]"

subsection \<open>Module \<^verbatim>\<open>golang_geth_question\<close>\<close>

definition geth_question_format :: "string \<Rightarrow> error + string" where
  "geth_question_format question =
     fstring [''question'' \<mapsto> question]
       [Lit (join_lines geth_question_head), Field ''question'',
        Lit (join_lines geth_question_tail)]"

definition geth_validation_format :: "string \<Rightarrow> error + string" where
  "geth_validation_format report =
     fstring [''report'' \<mapsto> report]
       [Lit (join_lines geth_validation_head), Field ''report'',
        Lit (join_lines geth_validation_tail)]"

subsection \<open>Module \<^verbatim>\<open>solidity_question\<close>\<close>

definition solidity_question_format :: "string \<Rightarrow> error + string" where
  "solidity_question_format question =
     fstring [''question'' \<mapsto> question]
       [Lit (join_lines solidity_question_head), Field ''question'',
        Lit (join_lines solidity_question_tail)]"

definition solidity_validation_format :: "string \<Rightarrow> error + string" where
  "solidity_validation_format report =
     fstring [''report'' \<mapsto> report]
       [Lit (join_lines solidity_validation_head), Field ''report'',
        Lit (join_lines solidity_validation_tail)]"

section \<open>Ecosystems, phases and rendering\<close>

text \<open>
  The source has one module per ecosystem and, in each, one function per phase. \<open>render\<close>
  names the six functions by the ecosystem and phase tags of the specification;
  \<open>template_head\<close> and \<open>template_tail\<close> name the literal text of each.
\<close>

datatype Ecosystem = CosmosGo | GethGo | Solidity

datatype Phase = Question | Validation

fun render :: "Ecosystem \<Rightarrow> Phase \<Rightarrow> string \<Rightarrow> error + string" where
  "render CosmosGo Question t = cosmos_question_format t"
| "render CosmosGo Validation t = cosmos_validation_format t"
| "render GethGo Question t = geth_question_format t"
| "render GethGo Validation t = geth_validation_format t"
| "render Solidity Question t = solidity_question_format t"
| "render Solidity Validation t = solidity_validation_format t"

fun template_head :: "Ecosystem \<Rightarrow> Phase \<Rightarrow> string list" where
  "template_head CosmosGo Question = cosmos_question_head"
| "template_head CosmosGo Validation = cosmos_validation_head"
| "template_head GethGo Question = geth_question_head"
| "template_head GethGo Validation = geth_validation_head"
| "template_head Solidity Question = solidity_question_head"
| "template_head Solidity Validation = solidity_validation_head"

fun template_tail :: "Ecosystem \<Rightarrow> Phase \<Rightarrow> string list" where
  "template_tail CosmosGo Question = cosmos_question_tail"
| "template_tail CosmosGo Validation = cosmos_validation_tail"
| "template_tail GethGo Question = geth_question_tail"
| "template_tail GethGo Validation = geth_validation_tail"
| "template_tail Solidity Question = solidity_question_tail"
| "template_tail Solidity Validation = solidity_validation_tail"

definition fixed_prefix :: "Ecosystem \<Rightarrow> Phase \<Rightarrow> string" where
  "fixed_prefix E P = join_lines (template_head E P)"

definition fixed_suffix :: "Ecosystem \<Rightarrow> Phase \<Rightarrow> string" where
  "fixed_suffix E P = join_lines (template_tail E P)"

definition insertion_offset :: "Ecosystem \<Rightarrow> Phase \<Rightarrow> nat" where
  "insertion_offset E P = length (fixed_prefix E P)"

text \<open>The lines of a rendered prompt (no lines when rendering fails).\<close>

definition rendered_lines :: "Ecosystem \<Rightarrow> Phase \<Rightarrow> string \<Rightarrow> string list" where
  "rendered_lines E P t = (case render E P t of Inl e \<Rightarrow> [] | Inr r \<Rightarrow> split_lines r)"

section \<open>The wire constants\<close>

definition sentinel :: string where
  "sentinel = ''#NoVulnerability found for this question.''"

definition section_names :: "string list" where
  "section_names =
     [''Title'', ''Summary'', ''Impact'', ''Finding Description'', ''Impact Explanation'',
      ''Likelihood Explanation'', ''Recommendation'', ''Proof of Concept'']"

definition headings :: "string list" where
  "headings = map (\<lambda>n. ''## '' @ n) section_names"

definition no_newline :: "string \<Rightarrow> bool" where
  "no_newline l = list_all (\<lambda>c. c \<noteq> CHR 0x0A) l"

section \<open>The rule registry\<close>

text \<open>
  Modelled from the spec: the Rule Registry of section 4.2 (\<open>lookup\<close>, \<open>PolicyBlock\<close>,
  \<open>ConfigurationError\<close>), which the source does not contain; the source holds the six policy
  texts as the module functions above. The registry is the table of the six fixed entries,
  keyed by ecosystem and phase, each entry holding the fixed text of its variant; a pair
  that the table does not define fails with \<open>ConfigurationError\<close>, and no default entry
  exists.
\<close>

record PolicyBlock =
  before_field :: "string list"
  after_field :: "string list"

datatype registry_error = ConfigurationError

definition policy :: "Ecosystem \<Rightarrow> Phase \<Rightarrow> PolicyBlock" where
  "policy E P = \<lparr>before_field = template_head E P, after_field = template_tail E P\<rparr>"

definition registry :: "((Ecosystem \<times> Phase) \<times> PolicyBlock) list" where
  "registry =
     [((CosmosGo, Question), policy CosmosGo Question),
      ((CosmosGo, Validation), policy CosmosGo Validation),
      ((GethGo, Question), policy GethGo Question),
      ((GethGo, Validation), policy GethGo Validation),
      ((Solidity, Question), policy Solidity Question),
      ((Solidity, Validation), policy Solidity Validation)]"

definition lookup_in ::
  "((Ecosystem \<times> Phase) \<times> PolicyBlock) list \<Rightarrow> Ecosystem \<Rightarrow> Phase \<Rightarrow> registry_error + PolicyBlock"
where
  "lookup_in table E P =
     (case map_of table (E, P) of None \<Rightarrow> Inl ConfigurationError | Some b \<Rightarrow> Inr b)"

definition lookup :: "Ecosystem \<Rightarrow> Phase \<Rightarrow> registry_error + PolicyBlock" where
  "lookup E P = lookup_in registry E P"

section \<open>The response classifier\<close>

text \<open>
  Modelled from the spec: the Response Classifier of section 4.4 (\<open>classify\<close>) and its
  outcome type of section 3, which the source does not contain. The steps are those of
  the spec, first match wins: the trimmed reply equal to the sentinel; else all eight
  headings, each once and in grammar order, with the bodies between them trimmed; else
  \<open>Malformed\<close> with the raw reply. The spec does not say how a heading is located in the
  reply. Here a heading stands where a line, trimmed, equals the heading byte for byte:
  a search for the heading as a substring could not find \<open>## Impact\<close> exactly once in a
  complete report, which also holds \<open>## Impact Explanation\<close>. Whitespace is blank, tab,
  newline, carriage return, vertical tab and form feed. A section is keyed by its name,
  the heading without the leading \<open>## \<close>.
\<close>

definition is_space :: "char \<Rightarrow> bool" where
  "is_space c = (c \<in> set [CHR 0x20, CHR 0x09, CHR 0x0A, CHR 0x0D, CHR 0x0B, CHR 0x0C])"

definition trim :: "string \<Rightarrow> string" where
  "trim s = rev (dropWhile is_space (rev (dropWhile is_space s)))"

datatype ClassificationOutcome =
  NoVulnerability
| StructuredReport "(string \<times> string) list"
| Malformed string

definition is_heading :: "string \<Rightarrow> bool" where
  "is_heading l = (trim l \<in> set headings)"

text \<open>
  The sections of a reply, in document order: each heading line with the lines that follow
  it up to the next heading line or the end. Lines before the first heading belong to
  no section.
\<close>

fun sections :: "string list \<Rightarrow> (string \<times> string list) list" where
  "sections [] = []"
| "sections (l # ls) =
     (if is_heading l then (trim l, takeWhile (\<lambda>x. \<not> is_heading x) ls) # sections ls
      else sections ls)"

definition classify :: "string \<Rightarrow> ClassificationOutcome" where
  "classify rawReply =
     (if trim rawReply = sentinel then NoVulnerability
      else
        let secs = sections (split_lines rawReply) in
        if map fst secs = headings
        then StructuredReport (map (\<lambda>(h, body). (drop 3 h, trim (join_lines body))) secs)
        else Malformed rawReply)"

text \<open>
  The words of the claims about the classifier, stated on the reply itself: how often a
  heading occurs as a trimmed line, the line where it first occurs, and the condition
  that every heading occurs exactly once and the eight first occurrences follow the
  grammar order.
\<close>

definition occurrences :: "string \<Rightarrow> string \<Rightarrow> nat" where
  "occurrences h r = count_list (map trim (split_lines r)) h"

definition first_line :: "string \<Rightarrow> string \<Rightarrow> nat" where
  "first_line h r = length (takeWhile (\<lambda>x. x \<noteq> h) (map trim (split_lines r)))"

definition headings_once_in_order :: "string \<Rightarrow> bool" where
  "headings_once_in_order r =
     (list_all (\<lambda>h. occurrences h r = 1) headings \<and>
      sorted_wrt (<) (map (\<lambda>h. first_line h r) headings))"

text \<open>Replies used as concrete inputs below.\<close>

definition short_report :: string where
  "short_report = join_lines
     [''Audit Report'', '''',
      ''## Title'', ''Fee rounding drains the pool'', '''',
      ''## Summary'', ''The fee is rounded down twice.'',
      ''## Impact'', ''High'',
      ''## Finding Description'', ''- location: x/fees'', ''- actual logic: rounds twice'',
      ''## Impact Explanation'', ''Funds are lost.'',
      ''## Likelihood Explanation'', ''Any user can do it.'',
      ''## Recommendation'', ''Round once.'',
      ''## Proof of Concept'', ''Run TestFeeRounding.'']"



section \<open>The escaper\<close>

text \<open>
  Modelled from the spec: the Escaper of section 4.1 (\<open>sanitize\<close>), which the source does
  not contain; none of the six functions calls it or does its work. A line of the free
  text collides when, trimmed and compared without regard to the case of ASCII letters, it
  equals the sentinel or a reserved heading. A colliding line is prefixed with a marker
  that indents and quotes it (the marker the spec gives as its example); every other line
  is left as it is. The spec gives \<open>sanitize\<close> no way to fail, so the model has no error
  result.
\<close>

definition to_lower :: "char \<Rightarrow> char" where
  "to_lower c =
     (case map_of (zip ''ABCDEFGHIJKLMNOPQRSTUVWXYZ'' ''abcdefghijklmnopqrstuvwxyz'') c of
        None \<Rightarrow> c
      | Some d \<Rightarrow> d)"

definition collides :: "string \<Rightarrow> bool" where
  "collides l = (map to_lower (trim l) \<in> set (map (map to_lower) (sentinel # headings)))"

definition quote_marker :: string where
  "quote_marker = ''    > ''"

definition sanitize :: "string \<Rightarrow> string" where
  "sanitize freeText =
     join_lines
       (map (\<lambda>l. if collides l then quote_marker @ l else l) (split_lines freeText))"

section \<open>Lines\<close>

lemma no_newline_simps [simp]:
  "no_newline []"
  "no_newline (c # cs) = (c \<noteq> CHR 0x0A \<and> no_newline cs)"
  "no_newline (a @ b) = (no_newline a \<and> no_newline b)"
  by (simp_all add: no_newline_def)

lemma specials_no_newline [simp]:
  "no_newline rsquo" "no_newline ldquo" "no_newline rdquo" "no_newline bullet"
  "no_newline ndash" "no_newline mdash" "no_newline nbhyphen"
  by (simp_all add: rsquo_def ldquo_def rdquo_def bullet_def ndash_def mdash_def nbhyphen_def)

lemma split_lines_not_Nil [simp]: "split_lines s \<noteq> []"
  by (induction s) (auto split: list.splits)

lemma split_lines_single: "no_newline l \<Longrightarrow> split_lines l = [l]"
  by (induction l) auto

lemma split_lines_line_Cons:
  "no_newline l \<Longrightarrow> split_lines (l @ CHR 0x0A # s) = l # split_lines s"
  by (induction l) auto

lemma split_lines_append:
  "split_lines (a @ b) =
     butlast (split_lines a) @ (last (split_lines a) @ hd (split_lines b)) # tl (split_lines b)"
proof (induction a)
  case Nil
  then show ?case by simp
next
  case (Cons c a)
  obtain x xs where sa: "split_lines a = x # xs"
    by (cases "split_lines a") simp_all
  show ?case
  proof (cases "c = CHR 0x0A")
    case True
    then show ?thesis using Cons sa by simp
  next
    case False
    then show ?thesis using Cons sa by (cases xs) simp_all
  qed
qed

lemma split_join_lines:
  "ls \<noteq> [] \<Longrightarrow> list_all no_newline ls \<Longrightarrow> split_lines (join_lines ls) = ls"
proof (induction ls rule: join_lines.induct)
  case 1
  then show ?case by simp
next
  case (2 l)
  then show ?case by (simp add: split_lines_single)
next
  case (3 l m ls)
  then show ?case by (simp add: split_lines_line_Cons)
qed

lemma join_lines_append:
  "xs \<noteq> [] \<Longrightarrow> ys \<noteq> [] \<Longrightarrow> join_lines (xs @ ys) = join_lines xs @ CHR 0x0A # join_lines ys"
proof (induction xs rule: join_lines.induct)
  case 1
  then show ?case by simp
next
  case (2 l)
  then show ?case by (cases ys) simp_all
next
  case (3 l m ls)
  then show ?case by simp
qed

lemma sublist_join_lines:
  assumes "sublist xs ys" "xs \<noteq> []"
  shows "sublist (join_lines xs) (join_lines ys)"
proof -
  from assms(1) obtain ps ss where ys: "ys = ps @ xs @ ss"
    by (auto simp: sublist_def)
  have mid: "sublist (join_lines xs) (join_lines (xs @ ss))"
  proof (cases "ss = []")
    case True
    then show ?thesis by simp
  next
    case False
    then show ?thesis using assms(2) by (simp add: join_lines_append)
  qed
  show ?thesis
  proof (cases "ps = []")
    case True
    then show ?thesis using mid ys by simp
  next
    case False
    have "join_lines ys = (join_lines ps @ [CHR 0x0A]) @ join_lines (xs @ ss)"
      using False assms(2) ys by (simp add: join_lines_append)
    moreover from mid obtain a b where "join_lines (xs @ ss) = a @ join_lines xs @ b"
      by (auto simp: sublist_def)
    ultimately have "join_lines ys = ((join_lines ps @ [CHR 0x0A]) @ a) @ join_lines xs @ b"
      by simp
    then show ?thesis unfolding sublist_def by blast
  qed
qed

lemma line_sublist_join_lines: "l \<in> set ls \<Longrightarrow> sublist l (join_lines ls)"
proof -
  assume "l \<in> set ls"
  then obtain ps ss where "ls = ps @ [l] @ ss"
    by (auto simp: in_set_conv_decomp)
  then have "sublist [l] ls" unfolding sublist_def by blast
  then have "sublist (join_lines [l]) (join_lines ls)"
    by (rule sublist_join_lines) simp
  then show ?thesis by simp
qed

section \<open>Rendering is one substitution\<close>

lemma fstring_one_field:
  "fstring [n \<mapsto> v] [Lit a, Field n, Lit b] = Inr (a @ v @ b)"
  by simp

lemma render_eq:
  "render E P t = Inr (join_lines (template_head E P) @ t @ join_lines (template_tail E P))"
  by (cases E; cases P)
     (simp_all only: render.simps template_head.simps template_tail.simps
        cosmos_question_format_def cosmos_validation_format_def
        geth_question_format_def geth_validation_format_def
        solidity_question_format_def solidity_validation_format_def fstring_one_field)

lemma cosmos_question_lines:
  "list_all no_newline cosmos_question_head" "list_all no_newline cosmos_question_tail"
  "cosmos_question_head \<noteq> []" "cosmos_question_tail \<noteq> []" "hd cosmos_question_tail = []"
  unfolding cosmos_question_head_def cosmos_question_tail_def by simp_all

lemma cosmos_validation_lines:
  "list_all no_newline cosmos_validation_head" "list_all no_newline cosmos_validation_tail"
  "cosmos_validation_head \<noteq> []" "cosmos_validation_tail \<noteq> []" "hd cosmos_validation_tail = []"
  unfolding cosmos_validation_head_def cosmos_validation_tail_def by simp_all

lemma geth_question_lines:
  "list_all no_newline geth_question_head" "list_all no_newline geth_question_tail"
  "geth_question_head \<noteq> []" "geth_question_tail \<noteq> []" "hd geth_question_tail = []"
  unfolding geth_question_head_def geth_question_tail_def by simp_all

lemma geth_validation_lines:
  "list_all no_newline geth_validation_head" "list_all no_newline geth_validation_tail"
  "geth_validation_head \<noteq> []" "geth_validation_tail \<noteq> []" "hd geth_validation_tail = []"
  unfolding geth_validation_head_def geth_validation_tail_def by simp_all

lemma solidity_question_lines:
  "list_all no_newline solidity_question_head" "list_all no_newline solidity_question_tail"
  "solidity_question_head \<noteq> []" "solidity_question_tail \<noteq> []" "hd solidity_question_tail = []"
  unfolding solidity_question_head_def solidity_question_tail_def by simp_all

lemma solidity_validation_lines:
  "list_all no_newline solidity_validation_head" "list_all no_newline solidity_validation_tail"
  "solidity_validation_head \<noteq> []" "solidity_validation_tail \<noteq> []"
  "hd solidity_validation_tail = []"
  unfolding solidity_validation_head_def solidity_validation_tail_def by simp_all

lemma template_lines:
  "list_all no_newline (template_head E P)" "list_all no_newline (template_tail E P)"
  "template_head E P \<noteq> []" "template_tail E P \<noteq> []" "hd (template_tail E P) = []"
proof -
  note six = cosmos_question_lines cosmos_validation_lines geth_question_lines
    geth_validation_lines solidity_question_lines solidity_validation_lines
  show "list_all no_newline (template_head E P)"
    by (cases E; cases P) (simp_all add: six)
  show "list_all no_newline (template_tail E P)"
    by (cases E; cases P) (simp_all add: six)
  show "template_head E P \<noteq> []"
    by (cases E; cases P) (simp_all add: six)
  show "template_tail E P \<noteq> []"
    by (cases E; cases P) (simp_all add: six)
  show "hd (template_tail E P) = []"
    by (cases E; cases P) (simp_all add: six)
qed

lemma validation_head_last: "last (template_head E Validation) = []"
  by (cases E)
     (simp_all add: cosmos_validation_head_def geth_validation_head_def
        solidity_validation_head_def)

lemma split_lines_embedded:
  assumes H: "H \<noteq> []" "list_all no_newline H"
    and T: "T \<noteq> []" "list_all no_newline T" "hd T = []"
  shows "split_lines (join_lines H @ t @ join_lines T) =
           butlast H @ split_lines (last H @ t) @ tl T"
proof -
  have nl: "no_newline (last H)"
    using H by (simp add: list_all_iff)
  have a: "split_lines (t @ join_lines T) = split_lines t @ tl T"
    using T by (simp add: split_lines_append split_join_lines)
  have b: "split_lines (last H @ t) = (last H @ hd (split_lines t)) # tl (split_lines t)"
    using nl by (simp add: split_lines_append split_lines_single)
  show ?thesis
    using H by (simp add: split_lines_append [of "join_lines H"] split_join_lines a b)
qed

lemma rendered_lines_eq:
  "rendered_lines E P t =
     butlast (template_head E P) @ split_lines (last (template_head E P) @ t)
       @ tl (template_tail E P)"
  unfolding rendered_lines_def render_eq
  by (simp add: split_lines_embedded template_lines)

lemma nth_line_sublist:
  "i < length ls \<Longrightarrow> sublist n (ls ! i) \<Longrightarrow> sublist n (join_lines ls)"
  using line_sublist_join_lines [of "ls ! i" ls] sublist_order.order_trans by fastforce

lemma two_point_insertion_unique:
  fixes p s a b :: "'a list" and x y :: 'a
  assumes eq: "\<And>t. p @ t @ s = a @ t @ b" and xy: "x \<noteq> y"
  shows "a = p \<and> b = s"
proof -
  have len: "length a = length p"
  proof (rule ccontr)
    assume ne: "length a \<noteq> length p"
    show False
    proof (cases "length a < length p")
      case True
      have "(p @ [c] @ s) ! length a = p ! length a" for c
        using True by (simp add: nth_append)
      moreover have "(a @ [c] @ b) ! length a = c" for c
        by (simp add: nth_append)
      ultimately have "p ! length a = c" for c
        using eq [of "[c]"] by metis
      from this [of x] this [of y] xy show False by simp
    next
      case False
      with ne have lt: "length p < length a" by simp
      have "(a @ [c] @ b) ! length p = a ! length p" for c
        using lt by (simp add: nth_append)
      moreover have "(p @ [c] @ s) ! length p = c" for c
        by (simp add: nth_append)
      ultimately have "a ! length p = c" for c
        using eq [of "[c]"] by metis
      from this [of x] this [of y] xy show False by simp
    qed
  qed
  from eq [of "[]"] have "p @ s = a @ b" by simp
  with len show ?thesis by simp
qed

text \<open>
  The place where the free text goes is determined by the function: no other pair of
  constant texts around the argument gives the same results for every argument.
\<close>

lemma insertion_point_unique:
  assumes "\<And>t. render E P t = Inr (a @ t @ b)"
  shows "a = fixed_prefix E P \<and> b = fixed_suffix E P"
proof -
  have "fixed_prefix E P @ t @ fixed_suffix E P = a @ t @ b" for t
    using assms [of t] by (simp add: render_eq fixed_prefix_def fixed_suffix_def)
  moreover have "CHR ''a'' \<noteq> CHR ''b''" by simp
  ultimately show ?thesis by (rule two_point_insertion_unique)
qed

section \<open>Properties of the rendered prompts\<close>

text \<open>
  C9. For every ecosystem, phase and input text \<open>t\<close>, the rendered prompt is the fixed
  prefix of that variant, then \<open>t\<close> itself, then the fixed suffix; prefix and suffix do not
  depend on \<open>t\<close>. The text is embedded once and unchanged: nothing is quoted, marked or
  escaped, also when \<open>t\<close> is or contains the sentinel line or a reserved heading.
\<close>

theorem render_is_prefix_text_suffix:
  "render E P t = Inr (fixed_prefix E P @ t @ fixed_suffix E P) \<and>
   render E P (a @ sentinel @ b) = Inr (fixed_prefix E P @ (a @ sentinel @ b) @ fixed_suffix E P)"
  by (simp add: render_eq fixed_prefix_def fixed_suffix_def)

text \<open>
  C6. Two renders of the same ecosystem and phase differ only in the substituted region:
  they agree on the text before the fixed insertion offset, each holds its own free text
  at that offset, they agree on everything after it, and the free text is counted once in
  the length of the result.
\<close>

theorem render_single_insertion_point:
  assumes "render E P t1 = Inr r1" and "render E P t2 = Inr r2"
  shows "take (insertion_offset E P) r1 = take (insertion_offset E P) r2 \<and>
         take (length t1) (drop (insertion_offset E P) r1) = t1 \<and>
         take (length t2) (drop (insertion_offset E P) r2) = t2 \<and>
         drop (insertion_offset E P + length t1) r1 = drop (insertion_offset E P + length t2) r2 \<and>
         length r1 - length t1 = length r2 - length t2"
proof -
  have r1: "r1 = fixed_prefix E P @ t1 @ fixed_suffix E P"
    using assms(1) by (simp add: render_eq fixed_prefix_def fixed_suffix_def)
  have r2: "r2 = fixed_prefix E P @ t2 @ fixed_suffix E P"
    using assms(2) by (simp add: render_eq fixed_prefix_def fixed_suffix_def)
  show ?thesis
    unfolding r1 r2 insertion_offset_def by simp
qed

theorem render_single_insertion_point_witness:
  "render GethGo Validation ''reentrancy'' =
     Inr (fixed_prefix GethGo Validation @ ''reentrancy'' @ fixed_suffix GethGo Validation) \<and>
   render GethGo Validation ''overflow in fee'' =
     Inr (fixed_prefix GethGo Validation @ ''overflow in fee'' @ fixed_suffix GethGo Validation) \<and>
   drop (insertion_offset GethGo Validation + length ''reentrancy'')
       (fixed_prefix GethGo Validation @ ''reentrancy'' @ fixed_suffix GethGo Validation) =
     drop (insertion_offset GethGo Validation + length ''overflow in fee'')
       (fixed_prefix GethGo Validation @ ''overflow in fee'' @ fixed_suffix GethGo Validation)"
proof -
  have h1: "render GethGo Validation ''reentrancy'' =
      Inr (fixed_prefix GethGo Validation @ ''reentrancy'' @ fixed_suffix GethGo Validation)"
    by (simp only: render_eq fixed_prefix_def fixed_suffix_def)
  have h2: "render GethGo Validation ''overflow in fee'' =
      Inr (fixed_prefix GethGo Validation @ ''overflow in fee'' @ fixed_suffix GethGo Validation)"
    by (simp only: render_eq fixed_prefix_def fixed_suffix_def)
  from render_single_insertion_point [OF h1 h2] h1 h2 show ?thesis by blast
qed

text \<open>
  C10. Whatever the input, the Solidity question prompt carries in its fixed text, next
  to the exact sentinel, two other no-finding instructions: the line without the hashtag
  (in curly and in straight quotes) and the misspelled \<open>#Noulnerability found.\<close>; and the
  Solidity validation prompt shows, as the no-finding output, a fenced block holding the
  sentinel line followed by one more line of text.
\<close>

theorem solidity_no_finding_variants:
  "(\<exists>r. render Solidity Question t = Inr r \<and> suffix (fixed_suffix Solidity Question) r) \<and>
   sublist (ldquo @ ''No vulnerability found for this question.'' @ rdquo)
     (fixed_suffix Solidity Question) \<and>
   sublist (''**\"No vulnerability found for this question.\"**'')
     (fixed_suffix Solidity Question) \<and>
   sublist (ldquo @ ''#Noulnerability found.'' @ rdquo) (fixed_suffix Solidity Question) \<and>
   sublist (ldquo @ sentinel @ rdquo) (fixed_suffix Solidity Question) \<and>
   (\<exists>r. render Solidity Validation t = Inr r \<and> suffix (fixed_suffix Solidity Validation) r) \<and>
   sublist
     (join_lines
       [''     ```'',
        ''     '' @ sentinel,
        ''     Pls very important because this is what i would use to know automated if its invalid '',
        ''     ```''])
     (fixed_suffix Solidity Validation)"
proof -
  note specials = rsquo_def ldquo_def rdquo_def bullet_def ndash_def mdash_def nbhyphen_def
  have len: "6 < length solidity_question_tail" "12 < length solidity_question_tail"
    "18 < length solidity_question_tail" "68 < length solidity_question_tail"
    by (simp_all add: solidity_question_tail_def)
  have a: "sublist (ldquo @ ''No vulnerability found for this question.'' @ rdquo)
      (solidity_question_tail ! 6)"
    by (simp add: solidity_question_tail_def sublist_Cons_right specials)
  have b: "sublist (''**\"No vulnerability found for this question.\"**'')
      (solidity_question_tail ! 12)"
    by (simp add: solidity_question_tail_def sublist_Cons_right specials)
  have c: "sublist (ldquo @ ''#Noulnerability found.'' @ rdquo) (solidity_question_tail ! 18)"
    by (simp add: solidity_question_tail_def sublist_Cons_right specials)
  have d: "sublist (ldquo @ sentinel @ rdquo) (solidity_question_tail ! 68)"
    by (simp add: solidity_question_tail_def sublist_Cons_right specials sentinel_def)
  have e: "sublist
      [''     ```'',
       ''     '' @ sentinel,
       ''     Pls very important because this is what i would use to know automated if its invalid '',
       ''     ```'']
      solidity_validation_tail"
    by (simp add: solidity_validation_tail_def sublist_Cons_right specials sentinel_def)
  have r: "\<exists>r. render E P t = Inr r \<and> suffix (fixed_suffix E P) r" for E P
    by (simp add: render_eq fixed_prefix_def fixed_suffix_def suffix_def)
  show ?thesis
    using r [of Solidity Question] r [of Solidity Validation]
      nth_line_sublist [OF len(1) a] nth_line_sublist [OF len(2) b]
      nth_line_sublist [OF len(3) c] nth_line_sublist [OF len(4) d]
      sublist_join_lines [OF e]
    by (simp add: fixed_suffix_def)
qed

lemma rendered_lines_empty:
  "rendered_lines E P [] = template_head E P @ tl (template_tail E P)"
proof -
  have "split_lines (last (template_head E P)) = [last (template_head E P)]"
    using template_lines(1,3) [of E P] by (simp add: split_lines_single list_all_iff)
  then show ?thesis
    using template_lines(3) [of E P] by (simp add: rendered_lines_eq)
qed

lemma question_head_last:
  "last (template_head E Question) = ''**Security Question (scope for this run):** ''"
  by (cases E)
     (simp_all add: cosmos_question_head_def geth_question_head_def solidity_question_head_def)

lemma render_lines: "render E P t = Inr r \<Longrightarrow> split_lines r = rendered_lines E P t"
  by (simp add: rendered_lines_def)

text \<open>
  Where the eight headings stand in the fixed text after the field: in the three question
  prompts as lines of their own, in the Geth and Solidity validation prompts indented by
  five blanks inside the fenced report format, in this order in each of the five.
\<close>

lemma question_heading_lines:
  "map ((!) cosmos_question_tail) [38, 41, 44, 47, 56, 59, 62, 65] = headings"
  "map ((!) geth_question_tail) [38, 41, 44, 47, 55, 61, 67, 70] = headings"
  "map ((!) solidity_question_tail) [74, 77, 80, 83, 92, 95, 98, 101] = headings"
  by (simp_all add: cosmos_question_tail_def geth_question_tail_def
      solidity_question_tail_def headings_def section_names_def)

lemma validation_heading_lines:
  "map ((!) geth_validation_tail) [51, 54, 57, 60, 67, 70, 73, 76] =
     map (\<lambda>h. ''     '' @ h) headings"
  "map ((!) solidity_validation_tail) [52, 55, 58, 61, 68, 71, 74, 77] =
     map (\<lambda>h. ''     '' @ h) headings"
  by (simp_all add: geth_validation_tail_def solidity_validation_tail_def
      headings_def section_names_def)

text \<open>
  C1, at the empty question and the empty report. The Solidity question prompt tells the
  model to state the no-finding line without the hashtag (lines 9 and 15), to report the
  misspelled \<open>#Noulnerability found.\<close> (line 21), and shows the sentinel with trailing
  text on the same line (line 112); the Solidity validation prompt shows a fenced
  no-finding block of two lines (lines 90 to 93). The claim asks for one sentinel only.
\<close>

theorem solidity_prompts_other_no_finding_lines:
  "rendered_lines Solidity Question [] ! 9 =
     ''- If you find a vulnerability, produce a report in the exact format below. If **no** valid vulnerability emerges, clearly state: **'' @ ldquo @ ''No vulnerability found for this question.'' @ rdquo @ ''**'' \<and>
   rendered_lines Solidity Question [] ! 15 =
     ''- If you do **not** find any valid vulnerability, you MUST clearly say: **\"No vulnerability found for this question.\"**'' \<and>
   rendered_lines Solidity Question [] ! 21 =
     ''- Be 100% certain the issue is exploitable. When in doubt, report **'' @ ldquo @ ''#Noulnerability found.'' @ rdquo @ ''**'' \<and>
   rendered_lines Solidity Question [] ! 112 =
     ''#NoVulnerability found for this question. Note Put the hashtag '' \<and>
   take 4 (drop 90 (rendered_lines Solidity Validation [])) =
     [''     ```'',
      ''     #NoVulnerability found for this question.'',
      ''     Pls very important because this is what i would use to know automated if its invalid '',
      ''     ```'']"
proof -
  have q: "rendered_lines Solidity Question [] = solidity_question_head @ tl solidity_question_tail"
    by (simp add: rendered_lines_empty)
  have v: "rendered_lines Solidity Validation [] =
      solidity_validation_head @ tl solidity_validation_tail"
    by (simp add: rendered_lines_empty)
  have 1: "(solidity_question_head @ tl solidity_question_tail) ! 9 =
     ''- If you find a vulnerability, produce a report in the exact format below. If **no** valid vulnerability emerges, clearly state: **'' @ ldquo @ ''No vulnerability found for this question.'' @ rdquo @ ''**''"
    by (simp add: solidity_question_head_def solidity_question_tail_def)
  have 2: "(solidity_question_head @ tl solidity_question_tail) ! 15 =
     ''- If you do **not** find any valid vulnerability, you MUST clearly say: **\"No vulnerability found for this question.\"**''"
    by (simp add: solidity_question_head_def solidity_question_tail_def)
  have 3: "(solidity_question_head @ tl solidity_question_tail) ! 21 =
     ''- Be 100% certain the issue is exploitable. When in doubt, report **'' @ ldquo @ ''#Noulnerability found.'' @ rdquo @ ''**''"
    by (simp add: solidity_question_head_def solidity_question_tail_def)
  have 4: "(solidity_question_head @ tl solidity_question_tail) ! 112 =
     ''#NoVulnerability found for this question. Note Put the hashtag ''"
    by (simp add: solidity_question_head_def solidity_question_tail_def)
  have 5: "take 4 (drop 90 (solidity_validation_head @ tl solidity_validation_tail)) =
     [''     ```'',
      ''     #NoVulnerability found for this question.'',
      ''     Pls very important because this is what i would use to know automated if its invalid '',
      ''     ```'']"
    by (simp add: solidity_validation_head_def solidity_validation_tail_def)
  show ?thesis
    unfolding q v using 1 2 3 4 5 by blast
qed

text \<open>
  C5, at the Cosmos validation prompt with the empty report: no line of the rendered
  prompt contains \<open>##\<close>, so none of the eight headings is in it, while the prompt refers
  to "the exact format provided below".
\<close>

theorem cosmos_validation_has_no_headings:
  "filter (sublist ''##'') (rendered_lines CosmosGo Validation []) = []"
proof -
  note specials = rsquo_def ldquo_def rdquo_def bullet_def ndash_def mdash_def nbhyphen_def
  have "list_all (\<lambda>l. \<not> sublist ''##'' l) (cosmos_validation_head @ tl cosmos_validation_tail)"
    by (simp add: cosmos_validation_head_def cosmos_validation_tail_def sublist_Cons_right
        specials)
  then show ?thesis
    by (simp add: rendered_lines_empty filter_empty_conv list_all_iff)
qed

text \<open>
  C4, as the claim states it, fails at the Cosmos validation prompt with the sentinel as
  free text: line 4 of the rendered prompt is the sentinel, byte for byte, with no mark
  or quotation.
\<close>

theorem sentinel_embedded_unmarked:
  "rendered_lines CosmosGo Validation sentinel ! 4 = sentinel"
proof -
  have "no_newline sentinel"
    by (simp add: sentinel_def)
  then have "split_lines sentinel = [sentinel]"
    by (rule split_lines_single)
  then show ?thesis
    by (simp add: rendered_lines_eq cosmos_validation_head_def nth_append)
qed

text \<open>
  C4, amended. No line of the free text is quoted or marked. In a validation prompt the
  lines of the rendered text are the fixed lines before the field, then the lines of the
  free text as they are, then the fixed lines after it; in a question prompt the same
  holds with the first line of the free text following
  \<open>**Security Question (scope for this run):** \<close> on its line. Free text without a
  colliding line is therefore preserved, and so is free text with one.
\<close>

theorem free_text_lines_verbatim:
  "(\<exists>r. render E Validation t = Inr r \<and>
        split_lines r =
          butlast (template_head E Validation) @ split_lines t @ tl (template_tail E Validation)) \<and>
   (\<exists>r. render E Question t = Inr r \<and>
        split_lines r =
          butlast (template_head E Question)
            @ split_lines (''**Security Question (scope for this run):** '' @ t)
            @ tl (template_tail E Question))"
proof -
  have "\<exists>r. render E P t = Inr r \<and> split_lines r = rendered_lines E P t" for P
    by (simp add: rendered_lines_def render_eq)
  from this [of Validation] this [of Question] show ?thesis
    by (simp add: rendered_lines_eq validation_head_last question_head_last)
qed

section \<open>Once and in order\<close>

lemma takeWhile_stop_before:
  "h \<notin> set us \<Longrightarrow> takeWhile (\<lambda>x. x \<noteq> h) (us @ h # vs) = us"
  by (induction us) auto

lemma first_pos_after:
  "k \<notin> set us \<Longrightarrow> k \<noteq> h \<Longrightarrow>
     length (takeWhile (\<lambda>x. x \<noteq> k) (us @ h # vs)) =
       length us + 1 + length (takeWhile (\<lambda>x. x \<noteq> k) vs)"
  by (induction us) auto

lemma first_pos_inside:
  "k \<in> set us \<Longrightarrow> length (takeWhile (\<lambda>x. x \<noteq> k) (us @ ys)) < length us"
  by (induction us) auto

lemma count_list_append_Cons:
  "count_list (us @ h # vs) k = count_list us k + (if h = k then 1 else 0) + count_list vs k"
  by (induction us) auto

text \<open>
  For a list \<open>hs\<close> without repetition: the members of \<open>hs\<close> found in \<open>xs\<close>, read in the
  order of \<open>xs\<close>, are \<open>hs\<close> itself exactly when every member of \<open>hs\<close> occurs once in \<open>xs\<close> and
  the first occurrences follow the order of \<open>hs\<close>.
\<close>

lemma filter_eq_iff_once_in_order:
  "distinct hs \<Longrightarrow>
     (filter (\<lambda>x. x \<in> set hs) xs = hs) =
       ((\<forall>h\<in>set hs. count_list xs h = 1) \<and>
        sorted_wrt (<) (map (\<lambda>h. length (takeWhile (\<lambda>x. x \<noteq> h) xs)) hs))"
proof (induction hs arbitrary: xs)
  case Nil
  then show ?case by simp
next
  case (Cons h hs)
  let ?pos = "\<lambda>ys k. length (takeWhile (\<lambda>x. x \<noteq> k) ys)"
  from Cons.prems have h_new: "h \<notin> set hs" and dist: "distinct hs" by simp_all
  note IH = Cons.IH [OF dist]
  show ?case
  proof
    assume F: "filter (\<lambda>x. x \<in> set (h # hs)) xs = h # hs"
    then obtain us vs where xs: "xs = us @ h # vs"
      and us: "\<forall>u\<in>set us. u \<notin> set (h # hs)"
      and vs: "hs = filter (\<lambda>x. x \<in> set (h # hs)) vs"
      by (auto simp: filter_eq_Cons_iff)
    have h_vs: "h \<notin> set vs"
    proof
      assume "h \<in> set vs"
      then have "h \<in> set (filter (\<lambda>x. x \<in> set (h # hs)) vs)" by simp
      with vs h_new show False by simp
    qed
    have "filter (\<lambda>x. x \<in> set (h # hs)) vs = filter (\<lambda>x. x \<in> set hs) vs"
      using h_vs by (intro filter_cong) auto
    with vs have Fvs: "filter (\<lambda>x. x \<in> set hs) vs = hs" by simp
    with IH [of vs] have cnt: "\<forall>k\<in>set hs. count_list vs k = 1"
      and srt: "sorted_wrt (<) (map (?pos vs) hs)" by simp_all
    have h_us: "h \<notin> set us" using us by auto
    have c1: "count_list xs h = 1"
      using h_us h_vs by (simp add: xs count_list_append_Cons)
    have c2: "count_list xs k = 1" if "k \<in> set hs" for k
    proof -
      from that us have "k \<notin> set us" by auto
      moreover from that h_new have "h \<noteq> k" by auto
      ultimately show ?thesis
        using cnt that by (simp add: xs count_list_append_Cons)
    qed
    have p1: "?pos xs h = length us"
      using h_us by (simp add: xs takeWhile_stop_before)
    have p2: "?pos xs k = length us + 1 + ?pos vs k" if "k \<in> set hs" for k
    proof -
      from that us have "k \<notin> set us" by auto
      moreover from that h_new have "k \<noteq> h" by auto
      ultimately show ?thesis unfolding xs by (rule first_pos_after)
    qed
    have s1: "\<forall>k\<in>set hs. ?pos xs h < ?pos xs k"
      using p1 p2 by simp
    have "sorted_wrt (\<lambda>a b. ?pos vs a < ?pos vs b) hs"
      using srt by (simp add: sorted_wrt_map)
    then have "sorted_wrt (\<lambda>a b. ?pos xs a < ?pos xs b) hs"
      by (rule sorted_wrt_mono_rel [rotated]) (simp add: p2)
    then have s2: "sorted_wrt (<) (map (?pos xs) hs)"
      by (simp add: sorted_wrt_map)
    show "(\<forall>k\<in>set (h # hs). count_list xs k = 1) \<and> sorted_wrt (<) (map (?pos xs) (h # hs))"
      using c1 c2 s1 s2 by simp
  next
    assume A: "(\<forall>k\<in>set (h # hs). count_list xs k = 1) \<and>
      sorted_wrt (<) (map (?pos xs) (h # hs))"
    then have ch: "count_list xs h = 1"
      and ck: "\<forall>k\<in>set hs. count_list xs k = 1"
      and s1: "\<forall>k\<in>set hs. ?pos xs h < ?pos xs k"
      and s2: "sorted_wrt (<) (map (?pos xs) hs)"
      by simp_all
    from ch have "h \<in> set xs"
      by (metis count_list_0_iff zero_neq_one)
    then obtain us vs where xs: "xs = us @ h # vs" and h_us: "h \<notin> set us"
      by (auto dest: split_list_first)
    have h_vs: "h \<notin> set vs"
    proof -
      from ch h_us have "count_list vs h = 0"
        by (simp add: xs count_list_append_Cons)
      then show ?thesis by (simp add: count_list_0_iff)
    qed
    have p1: "?pos xs h = length us"
      using h_us by (simp add: xs takeWhile_stop_before)
    have k_us: "k \<notin> set us" if "k \<in> set hs" for k
    proof
      assume "k \<in> set us"
      then have "?pos xs k < length us" unfolding xs by (rule first_pos_inside)
      with s1 that p1 show False by auto
    qed
    have p2: "?pos xs k = length us + 1 + ?pos vs k" if "k \<in> set hs" for k
    proof -
      from that h_new have "k \<noteq> h" by auto
      with k_us [OF that] show ?thesis unfolding xs by (rule first_pos_after)
    qed
    have cnt: "\<forall>k\<in>set hs. count_list vs k = 1"
    proof
      fix k assume k: "k \<in> set hs"
      with h_new have hk: "h \<noteq> k" by auto
      from ck k have "count_list xs k = 1" by blast
      moreover have "count_list us k = 0"
        using k_us [OF k] by (simp add: count_list_0_iff)
      ultimately show "count_list vs k = 1"
        using hk by (simp add: xs count_list_append_Cons)
    qed
    have "sorted_wrt (\<lambda>a b. ?pos xs a < ?pos xs b) hs"
      using s2 by (simp add: sorted_wrt_map)
    then have "sorted_wrt (\<lambda>a b. ?pos vs a < ?pos vs b) hs"
      by (rule sorted_wrt_mono_rel [rotated]) (simp add: p2)
    then have srt: "sorted_wrt (<) (map (?pos vs) hs)"
      by (simp add: sorted_wrt_map)
    from IH [of vs] cnt srt have Fvs: "filter (\<lambda>x. x \<in> set hs) vs = hs" by simp
    have "filter (\<lambda>x. x \<in> set (h # hs)) us = []"
      using h_us k_us by (auto simp: filter_empty_conv)
    moreover have "filter (\<lambda>x. x \<in> set (h # hs)) vs = filter (\<lambda>x. x \<in> set hs) vs"
      using h_vs by (intro filter_cong) auto
    ultimately show "filter (\<lambda>x. x \<in> set (h # hs)) xs = h # hs"
      using Fvs by (simp add: xs)
  qed
qed

section \<open>Sections of a reply\<close>

lemma distinct_headings: "distinct headings"
  by (simp add: headings_def section_names_def)

lemma drop3_headings: "map (drop 3) headings = section_names"
  by (simp add: headings_def section_names_def)

lemma sections_headings:
  "map fst (sections ls) = filter (\<lambda>x. x \<in> set headings) (map trim ls)"
  by (induction ls) (simp_all add: is_heading_def)

lemma takeWhile_stops_at:
  "\<not> P l \<Longrightarrow> takeWhile P (a @ l # r) = takeWhile P a"
  by (induction a) simp_all

lemma sections_append_heading:
  "is_heading l \<Longrightarrow> sections (a @ l # r) = sections a @ sections (l # r)"
  by (induction a) (simp_all add: takeWhile_stops_at)

lemma sections_skip_body:
  "list_all (\<lambda>x. \<not> is_heading x) b \<Longrightarrow> sections (b @ c) = sections c"
  by (induction b) simp_all

lemma takeWhile_body:
  "list_all (\<lambda>x. \<not> is_heading x) b \<Longrightarrow> c = [] \<or> is_heading (hd c) \<Longrightarrow>
     takeWhile (\<lambda>x. \<not> is_heading x) (b @ c) = b"
  by (cases c) (simp_all add: list_all_iff takeWhile_stops_at)

text \<open>
  The body of a section is made of the lines strictly between its heading line and the
  next heading line, or the end of the reply.
\<close>

lemma sections_between:
  assumes "is_heading l" "list_all (\<lambda>x. \<not> is_heading x) b" "c = [] \<or> is_heading (hd c)"
  shows "sections (a @ l # b @ c) = sections a @ (trim l, b) # sections c"
  using assms
  by (simp add: sections_append_heading takeWhile_body sections_skip_body)

lemma headings_once_in_order_iff:
  "headings_once_in_order r = (map fst (sections (split_lines r)) = headings)"
  unfolding headings_once_in_order_def occurrences_def first_line_def sections_headings
  by (simp add: filter_eq_iff_once_in_order [OF distinct_headings] list_all_iff)

lemma classify_cases:
  "classify r =
     (if trim r = sentinel then NoVulnerability
      else if headings_once_in_order r
      then StructuredReport
             (map (\<lambda>(h, body). (drop 3 h, trim (join_lines body))) (sections (split_lines r)))
      else Malformed r)"
  by (simp add: classify_def headings_once_in_order_iff Let_def)

section \<open>Evaluating the classifier\<close>

lemma trim_unchanged:
  "s \<noteq> [] \<Longrightarrow> \<not> is_space (hd s) \<Longrightarrow> \<not> is_space (last s) \<Longrightarrow> trim s = s"
proof -
  assume s: "s \<noteq> []" and h: "\<not> is_space (hd s)" and l: "\<not> is_space (last s)"
  from s h have "dropWhile is_space s = s"
    by (cases s) simp_all
  moreover from s l have "dropWhile is_space (rev s) = rev s"
    by (cases "rev s") (simp_all add: last_rev [symmetric] del: last_rev)
  ultimately show ?thesis by (simp add: trim_def)
qed

lemma short_report_sections:
  "sections (split_lines short_report) =
     [(''## Title'', [''Fee rounding drains the pool'', '''']),
      (''## Summary'', [''The fee is rounded down twice.'']),
      (''## Impact'', [''High'']),
      (''## Finding Description'', [''- location: x/fees'', ''- actual logic: rounds twice'']),
      (''## Impact Explanation'', [''Funds are lost.'']),
      (''## Likelihood Explanation'', [''Any user can do it.'']),
      (''## Recommendation'', [''Round once.'']),
      (''## Proof of Concept'', [''Run TestFeeRounding.''])]"
  by (simp add: short_report_def split_join_lines is_heading_def trim_def is_space_def
      headings_def section_names_def)

lemma short_report_not_sentinel: "trim short_report \<noteq> sentinel"
proof -
  have "trim short_report = short_report"
    unfolding short_report_def
    by (rule trim_unchanged)
       (simp_all add: is_space_def)
  then show ?thesis
    by (simp add: short_report_def sentinel_def)
qed





section \<open>Properties of the classifier\<close>




text \<open>
  C3. \<open>classify\<close> is a function on all strings with three outcomes and no error. For a
  reply whose trimmed text is not the sentinel, it returns a structured report exactly
  when each of the eight headings occurs once and the headings stand in grammar order,
  and \<open>Malformed\<close> with the raw reply in every other case. The structured report names the
  eight sections in grammar order, and the body of a section is the trimmed text of the
  lines strictly between its heading line and the next heading line, or the end of the
  reply.
\<close>

theorem classify_structured_or_malformed:
  assumes "trim r \<noteq> sentinel"
  shows "((\<exists>secs. classify r = StructuredReport secs) = headings_once_in_order r) \<and>
         ((classify r = Malformed r) = (\<not> headings_once_in_order r)) \<and>
         (\<forall>secs. classify r = StructuredReport secs \<longrightarrow>
            map fst secs = section_names \<and>
            (\<forall>a l b c.
               split_lines r = a @ l # b @ c \<and> is_heading l \<and>
               list_all (\<lambda>x. \<not> is_heading x) b \<and> (c = [] \<or> is_heading (hd c)) \<longrightarrow>
               (drop 3 (trim l), trim (join_lines b)) \<in> set secs))"
proof (intro conjI allI impI)
  show "(\<exists>secs. classify r = StructuredReport secs) = headings_once_in_order r"
    using assms by (simp add: classify_cases)
  show "(classify r = Malformed r) = (\<not> headings_once_in_order r)"
    using assms by (simp add: classify_cases)
next
  fix secs
  assume c: "classify r = StructuredReport secs"
  let ?g = "\<lambda>(h, body). (drop 3 h, trim (join_lines body))"
  from c assms have ok: "headings_once_in_order r"
    and secs: "secs = map ?g (sections (split_lines r))"
    by (auto simp: classify_cases split: if_splits)
  from ok have hs: "map fst (sections (split_lines r)) = headings"
    by (simp add: headings_once_in_order_iff)
  have "map fst secs = map (drop 3) (map fst (sections (split_lines r)))"
    unfolding secs by (induction "sections (split_lines r)") auto
  also have "\<dots> = section_names"
    by (simp only: hs drop3_headings)
  finally show "map fst secs = section_names" .
  fix a l b c
  assume d: "split_lines r = a @ l # b @ c \<and> is_heading l \<and>
    list_all (\<lambda>x. \<not> is_heading x) b \<and> (c = [] \<or> is_heading (hd c))"
  then have "sections (split_lines r) = sections a @ (trim l, b) # sections c"
    by (simp add: sections_between)
  then have "(trim l, b) \<in> set (sections (split_lines r))" by simp
  then have "?g (trim l, b) \<in> ?g ` set (sections (split_lines r))"
    by (rule imageI)
  then have "?g (trim l, b) \<in> set secs"
    by (simp only: secs set_map)
  then show "(drop 3 (trim l), trim (join_lines b)) \<in> set secs" by simp
qed

theorem classify_structured_or_malformed_witness:
  "trim short_report \<noteq> sentinel \<and> headings_once_in_order short_report \<and>
   (\<exists>secs. classify short_report = StructuredReport secs \<and>
      map fst secs = section_names \<and>
      (''Title'', ''Fee rounding drains the pool'') \<in> set secs)"
proof -
  note t = classify_structured_or_malformed [OF short_report_not_sentinel]
  have ok: "headings_once_in_order short_report"
    by (simp add: headings_once_in_order_iff short_report_sections headings_def
        section_names_def)
  with t obtain secs where secs: "classify short_report = StructuredReport secs"
    by blast
  note t3 = t [THEN conjunct2, THEN conjunct2, rule_format, OF secs]
  note between = t3 [THEN conjunct2, rule_format,
      of "[''Audit Report'', '''']" "''## Title''" "[''Fee rounding drains the pool'', '''']"
         "[''## Summary'', ''The fee is rounded down twice.'',
           ''## Impact'', ''High'',
           ''## Finding Description'', ''- location: x/fees'', ''- actual logic: rounds twice'',
           ''## Impact Explanation'', ''Funds are lost.'',
           ''## Likelihood Explanation'', ''Any user can do it.'',
           ''## Recommendation'', ''Round once.'',
           ''## Proof of Concept'', ''Run TestFeeRounding.'']"]
  have lines: "split_lines short_report =
      [''Audit Report'', ''''] @ ''## Title'' # [''Fee rounding drains the pool'', ''''] @
      [''## Summary'', ''The fee is rounded down twice.'',
       ''## Impact'', ''High'',
       ''## Finding Description'', ''- location: x/fees'', ''- actual logic: rounds twice'',
       ''## Impact Explanation'', ''Funds are lost.'',
       ''## Likelihood Explanation'', ''Any user can do it.'',
       ''## Recommendation'', ''Round once.'',
       ''## Proof of Concept'', ''Run TestFeeRounding.'']"
    by (simp add: short_report_def split_join_lines)
  have hd: "is_heading ''## Title''" "is_heading ''## Summary''"
    by (simp_all add: is_heading_def trim_def is_space_def headings_def section_names_def)
  have body: "list_all (\<lambda>x. \<not> is_heading x) [''Fee rounding drains the pool'', '''']"
    by (simp add: is_heading_def trim_def is_space_def headings_def section_names_def)
  have "(drop 3 (trim ''## Title''), trim (join_lines [''Fee rounding drains the pool'', '''']))
      \<in> set secs"
    by (rule between) (simp only: lines hd body list.sel simp_thms)
  moreover have "drop 3 (trim ''## Title'') = ''Title''"
    "trim (join_lines [''Fee rounding drains the pool'', '''']) = ''Fee rounding drains the pool''"
    by (simp_all add: trim_def is_space_def)
  ultimately have "(''Title'', ''Fee rounding drains the pool'') \<in> set secs" by simp
  moreover from t3 have "map fst secs = section_names" by (rule conjunct1)
  ultimately show ?thesis
    using short_report_not_sentinel ok secs by blast
qed

section \<open>Properties of the registry\<close>

text \<open>
  C8. \<open>lookup\<close> is defined on all three ecosystems and both phases and returns, for each of
  the six pairs, the fixed policy block of that pair. A pair that a table does not define
  fails with \<open>ConfigurationError\<close>; a block that a lookup returns is always the table's
  own entry for the pair, never a default.
\<close>

theorem lookup_total_or_configuration_error:
  "lookup E P = Inr (policy E P) \<and>
   (\<forall>table :: ((Ecosystem \<times> Phase) \<times> PolicyBlock) list.
      (E, P) \<notin> fst ` set table \<longrightarrow> lookup_in table E P = Inl ConfigurationError) \<and>
   (\<forall>table b. lookup_in table E P = Inr b \<longrightarrow> ((E, P), b) \<in> set table)"
proof (intro conjI allI impI)
  show "lookup E P = Inr (policy E P)"
    by (cases E; cases P) (simp_all add: lookup_def lookup_in_def registry_def)
next
  fix table :: "((Ecosystem \<times> Phase) \<times> PolicyBlock) list"
  assume "(E, P) \<notin> fst ` set table"
  then have "map_of table (E, P) = None"
    by (simp add: map_of_eq_None_iff)
  then show "lookup_in table E P = Inl ConfigurationError"
    by (simp add: lookup_in_def)
next
  fix table b
  assume "lookup_in table E P = Inr b"
  then have "map_of table (E, P) = Some b"
    by (simp add: lookup_in_def split: option.splits)
  then show "((E, P), b) \<in> set table"
    by (rule map_of_SomeD)
qed

theorem lookup_total_or_configuration_error_witness:
  "(Solidity, Validation) \<notin> fst ` set [((CosmosGo, Question), policy CosmosGo Question)] \<and>
   lookup_in [((CosmosGo, Question), policy CosmosGo Question)] Solidity Validation =
     Inl ConfigurationError \<and>
   lookup_in registry Solidity Validation = Inr (policy Solidity Validation) \<and>
   ((Solidity, Validation), policy Solidity Validation) \<in> set registry"
proof -
  note t = lookup_total_or_configuration_error [of Solidity Validation]
  have out: "(Solidity, Validation) \<notin> fst ` set [((CosmosGo, Question), policy CosmosGo Question)]"
    by simp
  have found: "lookup_in registry Solidity Validation = Inr (policy Solidity Validation)"
    using t by (simp add: lookup_def)
  from t out found show ?thesis by blast
qed

section \<open>Properties of the escaper\<close>

lemma split_lines_no_newline: "list_all no_newline (split_lines s)"
  by (induction s) (auto split: list.splits)

lemma sanitize_lines:
  "split_lines (sanitize t) =
     map (\<lambda>l. if collides l then quote_marker @ l else l) (split_lines t)"
proof -
  have "list_all no_newline
      (map (\<lambda>l. if collides l then quote_marker @ l else l) (split_lines t))"
    using split_lines_no_newline [of t]
    by (auto simp: list_all_iff quote_marker_def)
  then show ?thesis
    unfolding sanitize_def by (intro split_join_lines) simp_all
qed

lemma collides_empty: "\<not> collides []"
  by (simp add: collides_def trim_def sentinel_def headings_def section_names_def)

lemma sanitize_empty: "sanitize [] = []"
  by (simp add: sanitize_def collides_empty)

lemma collides_sentinel: "collides sentinel"
proof -
  have "trim sentinel = sentinel"
    by (rule trim_unchanged) (simp_all add: sentinel_def is_space_def)
  then show ?thesis by (simp add: collides_def)
qed

text \<open>The sentinel as free text comes out marked; a line of plain prose comes out as it is.\<close>

lemma sanitize_sentinel: "sanitize sentinel = ''    > '' @ sentinel"
proof -
  have "split_lines sentinel = [sentinel]"
    by (rule split_lines_single) (simp add: sentinel_def)
  then show ?thesis
    by (simp add: sanitize_def collides_sentinel quote_marker_def)
qed

lemma reserved_lower:
  "map (map to_lower) (sentinel # headings) =
     [''#novulnerability found for this question.'', ''## title'', ''## summary'',
      ''## impact'', ''## finding description'', ''## impact explanation'',
      ''## likelihood explanation'', ''## recommendation'', ''## proof of concept'']"
  by (simp add: to_lower_def sentinel_def headings_def section_names_def)

lemma collides_iff:
  "collides l =
     (map to_lower (trim l) \<in> set
       [''#novulnerability found for this question.'', ''## title'', ''## summary'',
        ''## impact'', ''## finding description'', ''## impact explanation'',
        ''## likelihood explanation'', ''## recommendation'', ''## proof of concept''])"
  by (simp only: collides_def reserved_lower)

lemma sanitize_prose_unchanged: "sanitize ''Is it safe?'' = ''Is it safe?''"
  by (simp add: sanitize_def collides_iff trim_def is_space_def to_lower_def)

lemma sanitize_heading_marked: "sanitize '' ## TITLE'' = ''    >  ## TITLE''"
  by (simp add: sanitize_def collides_iff trim_def is_space_def to_lower_def quote_marker_def)

text \<open>
  C7. \<open>sanitize\<close> and \<open>render\<close> never fail. \<open>sanitize\<close> returns a string for every input,
  with as many lines as the input, and returns the empty string for the empty string.
  \<open>render\<close> returns a string, never an error, for every ecosystem, phase and input text,
  the empty text and sanitised text included: the only way an f-string over a \<^verbatim>\<open>str\<close>
  argument can raise is an unbound name in a replacement field, and in each of the six
  functions the one field names the function's own parameter.
\<close>

theorem sanitize_and_render_never_fail:
  "(\<exists>s. sanitize t = s \<and> length (split_lines s) = length (split_lines t)) \<and>
   sanitize [] = [] \<and>
   (\<exists>r. render E P t = Inr r \<and>
        length r = length (fixed_prefix E P) + length t + length (fixed_suffix E P)) \<and>
   (\<exists>r. render E P [] = Inr r) \<and>
   (\<exists>r. render E P (sanitize t) = Inr r)"
  by (simp add: render_eq fixed_prefix_def fixed_suffix_def sanitize_lines sanitize_empty)

end
